theory Spec2Isabelle
  imports Complex_Main
begin

section \<open>Python values and exceptions\<close>

text \<open>
  The module \<^verbatim>\<open>meter.py\<close> receives decoded JSON (dictionaries with string keys) and
  raises Python exceptions. Exceptions are values of \<open>error\<close>; a call that can raise
  returns \<open>error + 'a\<close> with \<open>Inl\<close> for the exception. JSON numbers are Python ints
  (unbounded, \<open>int\<close>) or floats. Floating-point arithmetic is not interpreted: the type
  \<open>'f\<close> of floats and the float operations the module uses are parameters
  (\<open>float_ops\<close>), so every theorem holds for any float semantics. The text formatters
  (\<^verbatim>\<open>unit_watt\<close> and the others) only render values for display, and the \<^verbatim>\<open>alias_\<close>
  helpers are used nowhere; both are left out.
\<close>

datatype error =
  KeyError | TypeError | AttributeError | IndexError | ValueError | NameError | OverflowError

datatype 'f pyval =
    PNone
  | PBool bool
  | PInt int
  | PFloat 'f
  | PStr string
  | PList "'f pyval list"
  | PDict "(string \<times> 'f pyval) list"

type_synonym 'f pydict = "(string \<times> 'f pyval) list"

record 'f float_ops =
  fadd :: "'f \<Rightarrow> 'f \<Rightarrow> 'f"               \<comment> \<open>\<^verbatim>\<open>x + y\<close> on floats\<close>
  float_of_int :: "int \<Rightarrow> 'f option"      \<comment> \<open>int-to-float coercion; \<open>None\<close> is OverflowError\<close>
  int_div1000 :: "int \<Rightarrow> 'f option"       \<comment> \<open>\<^verbatim>\<open>i / 1000\<close> on an int; \<open>None\<close> is OverflowError\<close>
  float_div1000 :: "'f \<Rightarrow> 'f"             \<comment> \<open>\<^verbatim>\<open>x / 1000\<close> on a float\<close>
  round1 :: "'f \<Rightarrow> 'f"                    \<comment> \<open>\<^verbatim>\<open>round(x, 1)\<close> on a float\<close>

text \<open>\<^verbatim>\<open>d[k]\<close> on a dictionary: KeyError when the key is missing.\<close>

definition py_getitem :: "'f pydict \<Rightarrow> string \<Rightarrow> error + 'f pyval" where
  "py_getitem d k = (case map_of d k of None \<Rightarrow> Inl KeyError | Some v \<Rightarrow> Inr v)"

text \<open>\<^verbatim>\<open>d.get(k)\<close>: \<^verbatim>\<open>None\<close> when the key is missing.\<close>

definition py_get :: "'f pydict \<Rightarrow> string \<Rightarrow> 'f pyval" where
  "py_get d k = (case map_of d k of None \<Rightarrow> PNone | Some v \<Rightarrow> v)"

text \<open>
  \<^verbatim>\<open>v[k]\<close> with a string key on an arbitrary JSON value: a dictionary is looked up; every
  other value (None, numbers, strings, lists) raises TypeError.
\<close>

definition py_subscript :: "'f pyval \<Rightarrow> string \<Rightarrow> error + 'f pyval" where
  "py_subscript v k = (case v of PDict d \<Rightarrow> py_getitem d k | _ \<Rightarrow> Inl TypeError)"

text \<open>\<^verbatim>\<open>v.startswith(p)\<close>: only strings have the method.\<close>

definition py_startswith :: "'f pyval \<Rightarrow> string \<Rightarrow> error + bool" where
  "py_startswith v p = (case v of PStr s \<Rightarrow> Inr (take (length p) s = p) | _ \<Rightarrow> Inl AttributeError)"

text \<open>Python list indexing with an int: negative indices count from the end.\<close>

definition py_index :: "'a list \<Rightarrow> int \<Rightarrow> error + 'a" where
  "py_index xs i =
     (if 0 \<le> i \<and> i < int (length xs) then Inr (xs ! nat i)
      else if i < 0 \<and> - int (length xs) \<le> i then Inr (xs ! nat (int (length xs) + i))
      else Inl IndexError)"

text \<open>\<^verbatim>\<open>bool\<close> is a subclass of \<^verbatim>\<open>int\<close>: both take part in integer arithmetic.\<close>

fun as_int :: "'f pyval \<Rightarrow> int option" where
  "as_int (PInt i) = Some i"
| "as_int (PBool b) = Some (if b then 1 else 0)"
| "as_int _ = None"

text \<open>
  \<^verbatim>\<open>x + y\<close>: integer addition, float addition (an int operand is coerced first),
  concatenation of two strings or two lists; anything else raises TypeError.
\<close>

definition py_add :: "'f float_ops \<Rightarrow> 'f pyval \<Rightarrow> 'f pyval \<Rightarrow> error + 'f pyval" where
  "py_add fo x y =
     (case (as_int x, as_int y) of
        (Some i, Some j) \<Rightarrow> Inr (PInt (i + j))
      | (Some i, None) \<Rightarrow>
          (case y of
             PFloat b \<Rightarrow> (case float_of_int fo i of
                            None \<Rightarrow> Inl OverflowError
                          | Some a \<Rightarrow> Inr (PFloat (fadd fo a b)))
           | _ \<Rightarrow> Inl TypeError)
      | (None, Some j) \<Rightarrow>
          (case x of
             PFloat a \<Rightarrow> (case float_of_int fo j of
                            None \<Rightarrow> Inl OverflowError
                          | Some b \<Rightarrow> Inr (PFloat (fadd fo a b)))
           | _ \<Rightarrow> Inl TypeError)
      | (None, None) \<Rightarrow>
          (case (x, y) of
             (PFloat a, PFloat b) \<Rightarrow> Inr (PFloat (fadd fo a b))
           | (PStr s, PStr t) \<Rightarrow> Inr (PStr (s @ t))
           | (PList s, PList t) \<Rightarrow> Inr (PList (s @ t))
           | _ \<Rightarrow> Inl TypeError))"

text \<open>\<^verbatim>\<open>x + y + z\<close> associates to the left and stops at the first exception.\<close>

definition py_add3 ::
  "'f float_ops \<Rightarrow> error + 'f pyval \<Rightarrow> error + 'f pyval \<Rightarrow> error + 'f pyval \<Rightarrow> error + 'f pyval" where
  "py_add3 fo x y z =
     (case x of Inl e \<Rightarrow> Inl e | Inr a \<Rightarrow>
      (case y of Inl e \<Rightarrow> Inl e | Inr b \<Rightarrow>
       (case py_add fo a b of Inl e \<Rightarrow> Inl e | Inr ab \<Rightarrow>
        (case z of Inl e \<Rightarrow> Inl e | Inr c \<Rightarrow> py_add fo ab c))))"

text \<open>
  \<^verbatim>\<open>round(x / 1000, 1)\<close>, the conversion of an energy counter: true division of an int or
  a float by 1000, then rounding to one decimal. Any other operand raises TypeError.
\<close>

definition py_kwh :: "'f float_ops \<Rightarrow> error + 'f pyval \<Rightarrow> error + 'f pyval" where
  "py_kwh fo x =
     (case x of Inl e \<Rightarrow> Inl e | Inr v \<Rightarrow>
      (case v of
         PFloat a \<Rightarrow> Inr (PFloat (round1 fo (float_div1000 fo a)))
       | _ \<Rightarrow> (case as_int v of
                 None \<Rightarrow> Inl TypeError
               | Some i \<Rightarrow> (case int_div1000 fo i of
                              None \<Rightarrow> Inl OverflowError
                            | Some a \<Rightarrow> Inr (PFloat (round1 fo a))))))"


subsection \<open>Strings and integers\<close>

text \<open>\<^verbatim>\<open>str(i)\<close> on an int: the decimal numeral, with a minus sign when negative.\<close>

definition digit_char :: "nat \<Rightarrow> char" where
  "digit_char n = ''0123456789'' ! n"

fun nat_digits :: "nat \<Rightarrow> string" where
  "nat_digits n = (if n < 10 then [digit_char n] else nat_digits (n div 10) @ [digit_char (n mod 10)])"

declare nat_digits.simps [simp del]

definition py_str_int :: "int \<Rightarrow> string" where
  "py_str_int i = (if i < 0 then CHR ''-'' # nat_digits (nat (- i)) else nat_digits (nat i))"

text \<open>
  \<^verbatim>\<open>int(s)\<close> on a string: surrounding whitespace is stripped, one sign is allowed, and
  the rest is decimal digits, where a single underscore may stand between two digits.
  Everything else raises ValueError. (Characters are bytes here, so the non-ASCII digits
  and spaces that Python also accepts are outside the model.)
\<close>

definition is_digit :: "char \<Rightarrow> bool" where
  "is_digit c = (c \<in> set ''0123456789'')"

definition digit_val :: "char \<Rightarrow> int" where
  "digit_val c = int (of_char c) - 48"

definition is_space :: "char \<Rightarrow> bool" where
  "is_space c = (c \<in> {CHR '' '', CHR 0x09, CHR 0x0A, CHR 0x0B, CHR 0x0C, CHR 0x0D})"

definition py_strip :: "string \<Rightarrow> string" where
  "py_strip s = rev (dropWhile is_space (rev (dropWhile is_space s)))"

fun parse_digits :: "bool \<Rightarrow> int \<Rightarrow> string \<Rightarrow> int option" where
  "parse_digits d acc [] = (if d then Some acc else None)"
| "parse_digits d acc (c # cs) =
     (if is_digit c then parse_digits True (10 * acc + digit_val c) cs
      else if c = CHR ''_'' \<and> d \<and> cs \<noteq> [] \<and> is_digit (hd cs) then parse_digits False acc cs
      else None)"

definition py_int :: "string \<Rightarrow> error + int" where
  "py_int s =
     (let r = (case py_strip s of
                 [] \<Rightarrow> None
               | c # cs \<Rightarrow>
                   if c = CHR ''-'' then map_option uminus (parse_digits False 0 cs)
                   else if c = CHR ''+'' then parse_digits False 0 cs
                   else parse_digits False 0 (c # cs))
      in case r of None \<Rightarrow> Inl ValueError | Some n \<Rightarrow> Inr n)"

text \<open>\<^verbatim>\<open>s.split(c)\<close> for a one-character separator: never the empty list.\<close>

fun split_on :: "char \<Rightarrow> string \<Rightarrow> string list" where
  "split_on c [] = [[]]"
| "split_on c (x # xs) =
     (if x = c then [] # split_on c xs
      else (case split_on c xs of w # ws \<Rightarrow> (x # w) # ws | [] \<Rightarrow> [[x]]))"

section \<open>External collaborators\<close>

text \<open>
  The settings store (localsettings), the bus and the published service are libraries
  outside this repository. They are modelled by the state the module reads and writes.

  A setting holds a string or an integer (the module registers one string and two
  integer settings); reading a path that holds nothing gives \<^verbatim>\<open>None\<close>.
\<close>

datatype setting_value = SNone | SInt int | SStr string

fun py_str :: "setting_value \<Rightarrow> string" where
  "py_str SNone = ''None''"
| "py_str (SInt i) = py_str_int i"
| "py_str (SStr s) = s"

fun pyval_of :: "setting_value \<Rightarrow> 'f pyval" where
  "pyval_of SNone = PNone"
| "pyval_of (SInt i) = PInt i"
| "pyval_of (SStr s) = PStr s"

text \<open>
  The world outside one channel: whether localsettings is on the bus (\<open>reachable\<close>; a
  wait of five seconds that times out is \<open>reachable = False\<close>), the stored values by
  path, and the two names the module imports from the main program.
\<close>

record world =
  reachable :: bool
  stored :: "string \<rightharpoonup> setting_value"
  MAIN_FILE :: string
  VERSION :: string

text \<open>
  A channel's monitor is its own client of the store; it keeps the aliases the channel
  registered (alias to path). \<^verbatim>\<open>settings.alias(a)\<close> of an alias that was never registered
  is modelled as KeyError.
\<close>

record monitor =
  aliases :: "string \<rightharpoonup> string"

definition settings_alias :: "monitor \<Rightarrow> string \<Rightarrow> error + string" where
  "settings_alias mon a = (case aliases mon a of None \<Rightarrow> Inl KeyError | Some p \<Rightarrow> Inr p)"

definition get_value :: "world \<Rightarrow> string \<Rightarrow> setting_value" where
  "get_value w p = (case stored w p of None \<Rightarrow> SNone | Some v \<Rightarrow> v)"

definition set_value :: "world \<Rightarrow> string \<Rightarrow> setting_value \<Rightarrow> world" where
  "set_value w p v = w\<lparr>stored := (stored w)(p \<mapsto> v)\<rparr>"

text \<open>
  \<^verbatim>\<open>settings.add_settings(Setting(path, default, min, max, alias=a), ...)\<close>: each setting
  gets its alias, and its default value when the path holds nothing yet.
\<close>

fun add_settings ::
  "(string \<times> setting_value \<times> string) list \<Rightarrow> monitor \<Rightarrow> world \<Rightarrow> monitor \<times> world" where
  "add_settings [] mon w = (mon, w)"
| "add_settings ((path, dflt, a) # rest) mon w =
     add_settings rest
       (mon\<lparr>aliases := (aliases mon)(a \<mapsto> path)\<rparr>)
       (if stored w path = None then set_value w path dflt else w)"

text \<open>
  A published service: its bus name and its items by path, each with its current value.
  \<^verbatim>\<open>s[path] = v\<close> sets the value of a registered item at once; on a path that was never
  added it raises (modelled as KeyError).
\<close>

record 'f service =
  svc_name :: string
  items :: "string \<rightharpoonup> 'f pyval"

definition add_item :: "string \<Rightarrow> 'f pyval \<Rightarrow> 'f service \<Rightarrow> 'f service" where
  "add_item path v s = s\<lparr>items := (items s)(path \<mapsto> v)\<rparr>"

definition svc_setitem :: "'f service \<Rightarrow> string \<Rightarrow> 'f pyval \<Rightarrow> error + 'f service" where
  "svc_setitem s path v =
     (if items s path = None then Inl KeyError else Inr (s\<lparr>items := (items s)(path \<mapsto> v)\<rparr>))"

text \<open>
  The statements of a \<^verbatim>\<open>with self.service as s:\<close> block are assignments
  \<^verbatim>\<open>s[path] = expr\<close>, run in order. The first one that raises (in its expression or in
  the assignment) ends the block; the assignments before it have taken effect. The result
  is the service and the exception, if any. Entering the block with \<^verbatim>\<open>self.service\<close>
  being \<^verbatim>\<open>None\<close> raises before any statement (AttributeError).
\<close>

fun run_block ::
  "'f service \<Rightarrow> (string \<times> (error + 'f pyval)) list \<Rightarrow> 'f service \<times> error option" where
  "run_block s [] = (s, None)"
| "run_block s ((path, rhs) # rest) =
     (case rhs of
        Inl e \<Rightarrow> (s, Some e)
      | Inr v \<Rightarrow> (case svc_setitem s path v of
                   Inl e \<Rightarrow> (s, Some e)
                 | Inr s' \<Rightarrow> run_block s' rest))"

definition with_service ::
  "'f service option \<Rightarrow> (string \<times> (error + 'f pyval)) list \<Rightarrow> 'f service option \<times> error option" where
  "with_service so stmts =
     (case so of
        None \<Rightarrow> (None, Some AttributeError)
      | Some s \<Rightarrow> (case run_block s stmts of (s', e) \<Rightarrow> (Some s', e)))"

text \<open>
  The result of a call: what it returned, or the exception it raised. Methods mutate
  their object before they raise, so a call returns its outcome together with the state.
\<close>

datatype 'a outcome = Returned 'a | Raised error


section \<open>SingleMeter\<close>

datatype bus_type = SESSION | SYSTEM

record 'f SingleMeter =
  sm_bus_type :: bus_type
  sm_monitor :: "monitor option"
  sm_service :: "'f service option"
  sm_position :: setting_value
  sm_destroyed :: bool
  sm_meterid :: int
  sm_phaseposition :: setting_value

definition SingleMeter_init :: "bus_type \<Rightarrow> int \<Rightarrow> 'f SingleMeter" where
  "SingleMeter_init bt meterid =
     \<lparr>sm_bus_type = bt, sm_monitor = None, sm_service = None, sm_position = SNone,
      sm_destroyed = False, sm_meterid = meterid, sm_phaseposition = SInt 1\<rparr>"

text \<open>
  \<^verbatim>\<open>wait_for_settings\<close>: the settings object when localsettings shows up within five
  seconds, \<^verbatim>\<open>None\<close> on the timeout. \<^verbatim>\<open>get_settings\<close> does not wait; it fails with
  AttributeError when the channel has no monitor yet.
\<close>

definition wait_for_settings :: "monitor \<Rightarrow> world \<Rightarrow> monitor option" where
  "wait_for_settings mon w = (if reachable w then Some mon else None)"

definition SingleMeter_get_settings :: "'f SingleMeter \<Rightarrow> world \<Rightarrow> error + monitor option" where
  "SingleMeter_get_settings m w =
     (case sm_monitor m of
        None \<Rightarrow> Inl AttributeError
      | Some mon \<Rightarrow> Inr (if reachable w then Some mon else None))"

text \<open>
  \<^verbatim>\<open>role_instance\<close>: \<^verbatim>\<open>val = value.split(':'); return val[0], int(val[1])\<close>. A value that
  is not a string has no \<^verbatim>\<open>split\<close>.
\<close>

definition role_instance :: "setting_value \<Rightarrow> error + string \<times> int" where
  "role_instance v =
     (case v of
        SStr s \<Rightarrow>
          (let val = split_on CHR '':'' s in
           case py_index val 0 of Inl e \<Rightarrow> Inl e | Inr v0 \<Rightarrow>
           (case py_index val 1 of Inl e \<Rightarrow> Inl e | Inr v1 \<Rightarrow>
            (case py_int v1 of Inl e \<Rightarrow> Inl e | Inr n \<Rightarrow> Inr (v0, n))))
      | _ \<Rightarrow> Inl AttributeError)"

text \<open>\<^verbatim>\<open>data['result'][k]\<close> of the handshake frame.\<close>

definition handshake_field :: "'f pydict \<Rightarrow> string \<Rightarrow> error + 'f pyval" where
  "handshake_field data k =
     (case py_getitem data ''result'' of Inl e \<Rightarrow> Inl e | Inr r \<Rightarrow> py_subscript r k)"

text \<open>
  The names bound at module level in \<^verbatim>\<open>meter.py\<close> (imports, the logger, the
  formatters, the classes), and the load of a name that is no local variable: a name
  that is not bound raises NameError. A bound name stands for its object.
\<close>

definition module_globals :: "string list" where
  "module_globals =
     [''asyncio'', ''logging'', ''TimeoutError'', ''MessageBus'', ''VERSION'', ''MAIN_FILE'',
      ''Service'', ''IntegerItem'', ''DoubleItem'', ''TextItem'', ''TextArrayItem'',
      ''Monitor'', ''ServiceHandler'', ''SettingsService'', ''Setting'', ''SETTINGS_SERVICE'',
      ''logger'', ''LocalSettings'', ''unit_watt'', ''unit_volt'', ''unit_amp'', ''unit_kwh'',
      ''unit_productid'', ''alias_instance'', ''alias_position'', ''alias_phase'',
      ''SingleMeter'', ''ThreePhaseMeter'', ''PhysicalMeter'']"

definition load_global :: "string \<Rightarrow> error + string" where
  "load_global n = (if n \<in> set module_globals then Inr n else Inl NameError)"

text \<open>
  The items a single-phase channel publishes (lines 103 to 141 of \<^verbatim>\<open>start\<close>), in the
  order of the \<^verbatim>\<open>add_item\<close> calls. The per-phase points are added under
  \<^verbatim>\<open>"/Ac/L" + str(self.phaseposition)\<close> only.
\<close>

definition allowed_roles :: "string list" where
  "allowed_roles = [''grid'', ''pvinverter'', ''genset'', ''acload'']"

definition SingleMeter_items_head ::
  "world \<Rightarrow> string \<Rightarrow> string \<Rightarrow> 'f pyval \<Rightarrow> 'f pyval \<Rightarrow> string \<Rightarrow> int \<Rightarrow> setting_value
     \<Rightarrow> (string \<times> 'f pyval) list" where
  "SingleMeter_items_head w host port name fw role instance phaseposition =
     [(''/Mgmt/ProcessName'', PStr (MAIN_FILE w)),
      (''/Mgmt/ProcessVersion'', PStr (VERSION w)),
      (''/Mgmt/Connection'', PStr (''WebSocket '' @ host @ '':'' @ port)),
      (''/DeviceInstance'', PInt instance),
      (''/ProductId'', PInt 0xB034),
      (''/ProductName'', PStr ''Shelly energy meter'')]
     @ (if name \<noteq> PNone then [(''/CustomName'', name)] else [])
     @ [(''/FirmwareVersion'', fw),
        (''/Connected'', PInt 1),
        (''/RefreshTime'', PInt 100),
        (''/AllowedRoles'', PList (map PStr allowed_roles)),
        (''/Role'', PStr role),
        (''/Phase'', pyval_of phaseposition)]"

definition SingleMeter_items_meter :: "setting_value \<Rightarrow> (string \<times> 'f pyval) list" where
  "SingleMeter_items_meter phaseposition =
     (let prefix = ''/Ac/L'' @ py_str phaseposition in
      [(''/Ac/Energy/Forward'', PNone),
       (''/Ac/Energy/Reverse'', PNone),
       (''/Ac/Power'', PNone),
       (prefix @ ''/Voltage'', PNone),
       (prefix @ ''/Current'', PNone),
       (prefix @ ''/Power'', PNone),
       (prefix @ ''/Energy/Forward'', PNone),
       (prefix @ ''/Energy/Reverse'', PNone)])"

text \<open>
  \<^verbatim>\<open>/Position\<close> is added between the two groups, and only for the role
  \<^verbatim>\<open>pvinverter\<close>: \<open>position\<close> is that item, or the empty list.
\<close>

definition SingleMeter_items ::
  "world \<Rightarrow> string \<Rightarrow> string \<Rightarrow> 'f pyval \<Rightarrow> 'f pyval \<Rightarrow> string \<Rightarrow> int \<Rightarrow> (string \<times> 'f pyval) list
     \<Rightarrow> setting_value \<Rightarrow> (string \<times> 'f pyval) list" where
  "SingleMeter_items w host port name fw role instance position phaseposition =
     SingleMeter_items_head w host port name fw role instance phaseposition
     @ position
     @ SingleMeter_items_meter phaseposition"

text \<open>
  The \<^verbatim>\<open>/Position\<close> item: read from the store through the alias \<^verbatim>\<open>position\<close> when the
  role is \<^verbatim>\<open>pvinverter\<close>.
\<close>

definition position_item ::
  "monitor \<Rightarrow> world \<Rightarrow> string \<Rightarrow> error + (string \<times> 'f pyval) list" where
  "position_item settings w role =
     (if role = ''pvinverter''
      then (case settings_alias settings ''position'' of
              Inl e \<Rightarrow> Inl e
            | Inr ppos \<Rightarrow> Inr [(''/Position'', pyval_of (get_value w ppos))])
      else Inr [])"

definition create_service :: "string \<Rightarrow> (string \<times> 'f pyval) list \<Rightarrow> 'f service" where
  "create_service nm its = fold (\<lambda>(path, v). add_item path v) its \<lparr>svc_name = nm, items = Map.empty\<rparr>"

text \<open>
  \<^verbatim>\<open>SingleMeter.start\<close>, in the three stages of the source.

  Lines 58 to 73: the four identity fields are read under \<^verbatim>\<open>except KeyError\<close>, the name
  under a bare \<^verbatim>\<open>except\<close> (only a string can be joined with \<^verbatim>\<open>"_"\<close>), and any model
  other than the two-channel one is refused.
\<close>

definition handshake_identity ::
  "'f pydict \<Rightarrow> error + 'f pyval \<times> 'f pyval \<times> 'f pyval \<times> 'f pyval" where
  "handshake_identity data =
     (case handshake_field data ''mac'' of Inl e \<Rightarrow> Inl e | Inr mac \<Rightarrow>
      (case handshake_field data ''fw_id'' of Inl e \<Rightarrow> Inl e | Inr fw \<Rightarrow>
       (case handshake_field data ''model'' of Inl e \<Rightarrow> Inl e | Inr model \<Rightarrow>
        (case handshake_field data ''app'' of Inl e \<Rightarrow> Inl e | Inr app \<Rightarrow>
           Inr (mac, fw, model, app)))))"

text \<open>
  Lines 100 to 143: the service name is formatted from \<^verbatim>\<open>role\<close>, \<^verbatim>\<open>mac\<close> and
  \<^verbatim>\<open>str(meterid)\<close>, where \<^verbatim>\<open>meterid\<close> is neither a parameter nor a local of \<^verbatim>\<open>start\<close>, so
  it is loaded as a global; then the service is created and its items are added.
\<close>

definition SingleMeter_publish ::
  "'f SingleMeter \<Rightarrow> monitor \<Rightarrow> string \<Rightarrow> string \<Rightarrow> 'f pyval \<Rightarrow> 'f pyval \<Rightarrow> string \<Rightarrow> string \<Rightarrow> int
     \<Rightarrow> world \<Rightarrow> bool outcome \<times> 'f SingleMeter \<times> world" where
  "SingleMeter_publish m settings host port name fw mac role instance w =
     (case load_global ''meterid'' of
        Inl e \<Rightarrow> (Raised e, m, w)
      | Inr meterid \<Rightarrow>
          (let nm = ''com.victronenergy.'' @ role @ ''.shelly_'' @ mac @ ''_'' @ meterid in
           case position_item settings w role of
             Inl e \<Rightarrow>
               (Raised e,
                m\<lparr>sm_service := Some (create_service nm
                      (SingleMeter_items_head w host port name fw role instance (sm_phaseposition m)))\<rparr>,
                w)
           | Inr position \<Rightarrow>
               (Returned True,
                m\<lparr>sm_service := Some (create_service nm
                      (SingleMeter_items w host port name fw role instance position
                         (sm_phaseposition m)))\<rparr>,
                w)))"

text \<open>
  Lines 75 to 98: the bus connection and \<^verbatim>\<open>Monitor.create\<close> are taken to succeed; the
  channel waits for localsettings, registers its three settings and reads role, instance
  and phase. \<^verbatim>\<open>'...' + mac\<close> needs \<^verbatim>\<open>mac\<close> to be a string.
\<close>

definition SingleMeter_configure ::
  "'f SingleMeter \<Rightarrow> string \<Rightarrow> string \<Rightarrow> 'f pyval \<Rightarrow> 'f pyval \<Rightarrow> 'f pyval \<Rightarrow> world
     \<Rightarrow> bool outcome \<times> 'f SingleMeter \<times> world" where
  "SingleMeter_configure m host port name fw mac w =
     (let mon0 = \<lparr>aliases = Map.empty\<rparr>;
          m1 = m\<lparr>sm_monitor := Some mon0\<rparr>
      in case wait_for_settings mon0 w of
           None \<Rightarrow> (Returned False, m1, w)
         | Some settings \<Rightarrow>
            (case mac of
               PStr macs \<Rightarrow>
                 (let settingprefix =
                        ''/Settings/Devices/shelly_'' @ macs @ ''_'' @ py_str_int (sm_meterid m);
                      (mon1, w1) = add_settings
                         [(settingprefix @ ''/ClassAndVrmInstance'', SStr ''grid:40'', ''instance''),
                          (settingprefix @ ''/Position'', SInt 0, ''position''),
                          (settingprefix @ ''/Phase'', SInt 1, ''phaseposition'')] settings w;
                      m2 = m1\<lparr>sm_monitor := Some mon1\<rparr>
                  in case settings_alias mon1 ''instance'' of
                       Inl e \<Rightarrow> (Raised e, m2, w1)
                     | Inr pinst \<Rightarrow>
                        (case role_instance (get_value w1 pinst) of
                           Inl e \<Rightarrow> (Raised e, m2, w1)
                         | Inr (role, instance) \<Rightarrow>
                            (case settings_alias mon1 ''phaseposition'' of
                               Inl e \<Rightarrow> (Raised e, m2, w1)
                             | Inr pp \<Rightarrow>
                                 SingleMeter_publish (m2\<lparr>sm_phaseposition := get_value w1 pp\<rparr>)
                                   mon1 host port name fw macs role instance w1)))
             | _ \<Rightarrow> (Raised TypeError, m1, w)))"

definition SingleMeter_start ::
  "'f SingleMeter \<Rightarrow> string \<Rightarrow> string \<Rightarrow> 'f pydict \<Rightarrow> world \<Rightarrow> bool outcome \<times> 'f SingleMeter \<times> world" where
  "SingleMeter_start m host port data w =
     (case handshake_identity data of
        Inl KeyError \<Rightarrow> (Returned False, m, w)
      | Inl e \<Rightarrow> (Raised e, m, w)
      | Inr (mac, fw, model, app) \<Rightarrow>
          (let name = (case handshake_field data ''name'' of
                         Inr (PStr n) \<Rightarrow> PStr (n @ ''_'' @ py_str_int (sm_meterid m))
                       | _ \<Rightarrow> PNone)
           in if \<not> (model = PStr ''SPEM-002CEBEU50'' \<and> app = PStr ''ProEM'')
              then (Returned False, m, w)
              else SingleMeter_configure m host port name fw mac w))"

text \<open>
  \<^verbatim>\<open>destroy\<close>: the service is dropped and the flag set. (\<^verbatim>\<open>self.settings\<close>, which
  \<^verbatim>\<open>destroy\<close> also clears, is read nowhere.)
\<close>

definition SingleMeter_destroy :: "'f SingleMeter \<Rightarrow> 'f SingleMeter" where
  "SingleMeter_destroy m = m\<lparr>sm_service := None, sm_destroyed := True\<rparr>"


subsection \<open>SingleMeter.update\<close>

text \<open>
  The assignments of the four \<^verbatim>\<open>with self.service as s:\<close> blocks of \<^verbatim>\<open>update\<close>, each
  with the expression on its right: the tagged live block (lines 161 to 165), the tagged
  energy block (171 to 174), and the two blocks for a whole \<^verbatim>\<open>NotifyStatus\<close> frame
  (188 to 198 and 206 to 213), which write the fixed paths of the lines 1 to 3.
\<close>

definition SingleMeter_live_block :: "string \<Rightarrow> 'f pydict \<Rightarrow> (string \<times> (error + 'f pyval)) list" where
  "SingleMeter_live_block prefix data =
     [(prefix @ ''/Voltage'', py_getitem data ''voltage''),
      (prefix @ ''/Current'', py_getitem data ''current''),
      (prefix @ ''/Power'', py_getitem data ''act_power''),
      (''/Ac/Power'', py_getitem data ''act_power'')]"

definition SingleMeter_data_block ::
  "'f float_ops \<Rightarrow> string \<Rightarrow> 'f pydict \<Rightarrow> (string \<times> (error + 'f pyval)) list" where
  "SingleMeter_data_block fo prefix data =
     [(''/Ac/Energy/Forward'', py_kwh fo (py_getitem data ''total_act_energy'')),
      (''/Ac/Energy/Reverse'', py_kwh fo (py_getitem data ''total_act_ret_energy'')),
      (prefix @ ''/Energy/Forward'', py_kwh fo (py_getitem data ''total_act_energy'')),
      (prefix @ ''/Energy/Reverse'', py_kwh fo (py_getitem data ''total_act_ret_energy''))]"

definition notify_live_block :: "'f float_ops \<Rightarrow> 'f pyval \<Rightarrow> (string \<times> (error + 'f pyval)) list" where
  "notify_live_block fo d =
     [(''/Ac/L1/Voltage'', py_subscript d ''a_voltage''),
      (''/Ac/L2/Voltage'', py_subscript d ''b_voltage''),
      (''/Ac/L3/Voltage'', py_subscript d ''c_voltage''),
      (''/Ac/L1/Current'', py_subscript d ''a_current''),
      (''/Ac/L2/Current'', py_subscript d ''b_current''),
      (''/Ac/L3/Current'', py_subscript d ''c_current''),
      (''/Ac/L1/Power'', py_subscript d ''a_act_power''),
      (''/Ac/L2/Power'', py_subscript d ''b_act_power''),
      (''/Ac/L3/Power'', py_subscript d ''c_act_power''),
      (''/Ac/Power'', py_add3 fo (py_subscript d ''a_act_power'') (py_subscript d ''b_act_power'')
                        (py_subscript d ''c_act_power''))]"

definition notify_data_block :: "'f float_ops \<Rightarrow> 'f pyval \<Rightarrow> (string \<times> (error + 'f pyval)) list" where
  "notify_data_block fo d =
     [(''/Ac/Energy/Forward'', py_kwh fo (py_subscript d ''total_act'')),
      (''/Ac/Energy/Reverse'', py_kwh fo (py_subscript d ''total_act_ret'')),
      (''/Ac/L1/Energy/Forward'', py_kwh fo (py_subscript d ''a_total_act_energy'')),
      (''/Ac/L1/Energy/Reverse'', py_kwh fo (py_subscript d ''a_total_act_ret_energy'')),
      (''/Ac/L2/Energy/Forward'', py_kwh fo (py_subscript d ''b_total_act_energy'')),
      (''/Ac/L2/Energy/Reverse'', py_kwh fo (py_subscript d ''b_total_act_ret_energy'')),
      (''/Ac/L3/Energy/Forward'', py_kwh fo (py_subscript d ''c_total_act_energy'')),
      (''/Ac/L3/Energy/Reverse'', py_kwh fo (py_subscript d ''c_total_act_ret_energy''))]"

text \<open>
  Lines 155 to 178, without the outermost \<^verbatim>\<open>try\<close>: the frame's \<^verbatim>\<open>helpertag\<close> chooses the
  live or the energy block. Each block sits in its own \<^verbatim>\<open>try ... except: pass\<close>, which
  keeps the writes made before the exception and drops the exception.
\<close>

definition SingleMeter_update_tagged ::
  "'f float_ops \<Rightarrow> 'f SingleMeter \<Rightarrow> 'f pydict \<Rightarrow> 'f SingleMeter \<times> error option" where
  "SingleMeter_update_tagged fo m data =
     (let prefix = ''/Ac/L'' @ py_str (sm_phaseposition m) in
      case py_getitem data ''helpertag'' of
        Inl e \<Rightarrow> (m, Some e)
      | Inr helpertag \<Rightarrow>
          (case py_startswith helpertag ''em:'' of
             Inl e \<Rightarrow> (m, Some e)
           | Inr True \<Rightarrow>
               (m\<lparr>sm_service := fst (with_service (sm_service m) (SingleMeter_live_block prefix data))\<rparr>,
                None)
           | Inr False \<Rightarrow>
               (case py_startswith helpertag ''emdata:'' of
                  Inl e \<Rightarrow> (m, Some e)
                | Inr True \<Rightarrow>
                    (m\<lparr>sm_service :=
                         fst (with_service (sm_service m) (SingleMeter_data_block fo prefix data))\<rparr>,
                     None)
                | Inr False \<Rightarrow> (m, None))))"

text \<open>
  Lines 200 to 213: \<^verbatim>\<open>data['params']['emdata:0']\<close> is read under \<^verbatim>\<open>except KeyError\<close>; the
  block in the \<^verbatim>\<open>else\<close> branch is not guarded.
\<close>

definition SingleMeter_update_notify_data ::
  "'f float_ops \<Rightarrow> 'f SingleMeter \<Rightarrow> 'f pydict \<Rightarrow> 'f SingleMeter \<times> error option" where
  "SingleMeter_update_notify_data fo m data =
     (case (case py_getitem data ''params'' of
              Inl e \<Rightarrow> Inl e
            | Inr params \<Rightarrow> py_subscript params ''emdata:0'') of
        Inl KeyError \<Rightarrow> (m, None)
      | Inl e \<Rightarrow> (m, Some e)
      | Inr d \<Rightarrow>
          (case with_service (sm_service m) (notify_data_block fo d) of
             (so, e) \<Rightarrow> (m\<lparr>sm_service := so\<rparr>, e)))"

text \<open>
  Lines 181 to 198, followed by the lines above when no exception is under way:
  \<^verbatim>\<open>data['params']['em:0']\<close> is read under \<^verbatim>\<open>except KeyError\<close>; the block in the
  \<^verbatim>\<open>else\<close> branch is not guarded.
\<close>

definition SingleMeter_update_notify ::
  "'f float_ops \<Rightarrow> 'f SingleMeter \<Rightarrow> 'f pydict \<Rightarrow> 'f SingleMeter \<times> error option" where
  "SingleMeter_update_notify fo m data =
     (case (case py_getitem data ''params'' of
              Inl e \<Rightarrow> Inl e
            | Inr params \<Rightarrow> py_subscript params ''em:0'') of
        Inl KeyError \<Rightarrow> SingleMeter_update_notify_data fo m data
      | Inl e \<Rightarrow> (m, Some e)
      | Inr d \<Rightarrow>
          (case with_service (sm_service m) (notify_live_block fo d) of
             (so, Some e) \<Rightarrow> (m\<lparr>sm_service := so\<rparr>, Some e)
           | (so, None) \<Rightarrow> SingleMeter_update_notify_data fo (m\<lparr>sm_service := so\<rparr>) data))"

text \<open>
  \<^verbatim>\<open>SingleMeter.update\<close>: the tagged part under \<^verbatim>\<open>try ... except: pass\<close>, then the
  \<^verbatim>\<open>NotifyStatus\<close> part when the channel has a service (a service object is truthy) and
  \<^verbatim>\<open>data.get('method') == 'NotifyStatus'\<close>. The result is the channel and the exception
  that leaves \<^verbatim>\<open>update\<close>, if any.
\<close>

definition SingleMeter_update ::
  "'f float_ops \<Rightarrow> 'f SingleMeter \<Rightarrow> 'f pydict \<Rightarrow> 'f SingleMeter \<times> error option" where
  "SingleMeter_update fo m data =
     (let m1 = fst (SingleMeter_update_tagged fo m data) in
      if sm_service m1 \<noteq> None \<and> py_get data ''method'' = PStr ''NotifyStatus''
      then SingleMeter_update_notify fo m1 data
      else (m1, None))"

subsection \<open>SingleMeter: callbacks\<close>


text \<open>
  The three writeable points call back with the new value and get a boolean: \<^verbatim>\<open>True\<close>
  accepts the write. \<^verbatim>\<open>"{}:{}".format(val, instance)\<close> joins the strings of both.
\<close>

definition SingleMeter_role_changed ::
  "'f SingleMeter \<Rightarrow> world \<Rightarrow> setting_value \<Rightarrow> bool outcome \<times> 'f SingleMeter \<times> world" where
  "SingleMeter_role_changed m w val =
     (if val \<notin> set (map SStr allowed_roles) then (Returned False, m, w)
      else case SingleMeter_get_settings m w of
             Inl e \<Rightarrow> (Raised e, m, w)
           | Inr None \<Rightarrow> (Returned False, m, w)
           | Inr (Some settings) \<Rightarrow>
               (case settings_alias settings ''instance'' of
                  Inl e \<Rightarrow> (Raised e, m, w)
                | Inr p \<Rightarrow>
                    (case role_instance (get_value w p) of
                       Inl e \<Rightarrow> (Raised e, m, w)
                     | Inr (role, instance) \<Rightarrow>
                         (Returned True, SingleMeter_destroy m,
                          set_value w p (SStr (py_str val @ '':'' @ py_str_int instance))))))"

definition SingleMeter_position_changed ::
  "'f SingleMeter \<Rightarrow> world \<Rightarrow> int \<Rightarrow> bool outcome \<times> 'f SingleMeter \<times> world" where
  "SingleMeter_position_changed m w val =
     (if \<not> (0 \<le> val \<and> val \<le> 2) then (Returned False, m, w)
      else case SingleMeter_get_settings m w of
             Inl e \<Rightarrow> (Raised e, m, w)
           | Inr None \<Rightarrow> (Returned False, m, w)
           | Inr (Some settings) \<Rightarrow>
               (case settings_alias settings ''position'' of
                  Inl e \<Rightarrow> (Raised e, m, w)
                | Inr p \<Rightarrow> (Returned True, m, set_value w p (SInt val))))"

definition SingleMeter_phase_changed ::
  "'f SingleMeter \<Rightarrow> world \<Rightarrow> int \<Rightarrow> bool outcome \<times> 'f SingleMeter \<times> world" where
  "SingleMeter_phase_changed m w val =
     (if \<not> (1 \<le> val \<and> val \<le> 3) then (Returned False, m, w)
      else case SingleMeter_get_settings m w of
             Inl e \<Rightarrow> (Raised e, m, w)
           | Inr None \<Rightarrow> (Returned False, m, w)
           | Inr (Some settings) \<Rightarrow>
               (case settings_alias settings ''phaseposition'' of
                  Inl e \<Rightarrow> (Raised e, m, w)
                | Inr p \<Rightarrow>
                    (Returned True, m\<lparr>sm_phaseposition := SInt val\<rparr>, set_value w p (SInt val))))"

section \<open>ThreePhaseMeter\<close>

record 'f ThreePhaseMeter =
  tp_bus_type :: bus_type
  tp_monitor :: "monitor option"
  tp_service :: "'f service option"
  tp_position :: setting_value
  tp_destroyed :: bool
  tp_phase1position :: setting_value

definition ThreePhaseMeter_init :: "bus_type \<Rightarrow> 'f ThreePhaseMeter" where
  "ThreePhaseMeter_init bt =
     \<lparr>tp_bus_type = bt, tp_monitor = None, tp_service = None, tp_position = SNone,
      tp_destroyed = False, tp_phase1position = SInt 1\<rparr>"

definition ThreePhaseMeter_get_settings :: "'f ThreePhaseMeter \<Rightarrow> world \<Rightarrow> error + monitor option" where
  "ThreePhaseMeter_get_settings m w =
     (case tp_monitor m of
        None \<Rightarrow> Inl AttributeError
      | Some mon \<Rightarrow> Inr (if reachable w then Some mon else None))"

text \<open>
  The items a three-phase channel publishes (lines 338 to 374 of \<^verbatim>\<open>start\<close>): the
  per-phase points are added for each of \<^verbatim>\<open>/Ac/L1\<close>, \<^verbatim>\<open>/Ac/L2\<close>, \<^verbatim>\<open>/Ac/L3\<close>.
\<close>

definition ThreePhaseMeter_items_head ::
  "world \<Rightarrow> string \<Rightarrow> string \<Rightarrow> 'f pyval \<Rightarrow> 'f pyval \<Rightarrow> string \<Rightarrow> int \<Rightarrow> setting_value
     \<Rightarrow> (string \<times> 'f pyval) list" where
  "ThreePhaseMeter_items_head w host port name fw role instance phase1position =
     [(''/Mgmt/ProcessName'', PStr (MAIN_FILE w)),
      (''/Mgmt/ProcessVersion'', PStr (VERSION w)),
      (''/Mgmt/Connection'', PStr (''WebSocket '' @ host @ '':'' @ port)),
      (''/DeviceInstance'', PInt instance),
      (''/ProductId'', PInt 0xB034),
      (''/ProductName'', PStr ''Shelly energy meter'')]
     @ (if name \<noteq> PNone then [(''/CustomName'', name)] else [])
     @ [(''/FirmwareVersion'', fw),
        (''/Connected'', PInt 1),
        (''/RefreshTime'', PInt 100),
        (''/AllowedRoles'', PList (map PStr allowed_roles)),
        (''/Role'', PStr role),
        (''/Phase'', pyval_of phase1position)]"

definition phase_items :: "string \<Rightarrow> (string \<times> 'f pyval) list" where
  "phase_items prefix =
     [(prefix @ ''/Voltage'', PNone),
      (prefix @ ''/Current'', PNone),
      (prefix @ ''/Power'', PNone),
      (prefix @ ''/Energy/Forward'', PNone),
      (prefix @ ''/Energy/Reverse'', PNone)]"

definition ThreePhaseMeter_items ::
  "world \<Rightarrow> string \<Rightarrow> string \<Rightarrow> 'f pyval \<Rightarrow> 'f pyval \<Rightarrow> string \<Rightarrow> int \<Rightarrow> (string \<times> 'f pyval) list
     \<Rightarrow> setting_value \<Rightarrow> (string \<times> 'f pyval) list" where
  "ThreePhaseMeter_items w host port name fw role instance position phase1position =
     ThreePhaseMeter_items_head w host port name fw role instance phase1position
     @ position
     @ [(''/Ac/Energy/Forward'', PNone),
        (''/Ac/Energy/Reverse'', PNone),
        (''/Ac/Power'', PNone)]
     @ concat (map (\<lambda>x. phase_items (''/Ac/L'' @ py_str_int x)) [1, 2, 3])"

text \<open>
  \<^verbatim>\<open>ThreePhaseMeter.start\<close>, in the stages of the source. Lines 335 to 376: the service
  name is formatted from \<^verbatim>\<open>role\<close> and \<^verbatim>\<open>mac\<close>, the service is created and its items added.
\<close>

definition ThreePhaseMeter_publish ::
  "'f ThreePhaseMeter \<Rightarrow> monitor \<Rightarrow> string \<Rightarrow> string \<Rightarrow> 'f pyval \<Rightarrow> 'f pyval \<Rightarrow> string \<Rightarrow> string \<Rightarrow> int
     \<Rightarrow> world \<Rightarrow> bool outcome \<times> 'f ThreePhaseMeter \<times> world" where
  "ThreePhaseMeter_publish m settings host port name fw mac role instance w =
     (let nm = ''com.victronenergy.'' @ role @ ''.shelly_'' @ mac in
      case position_item settings w role of
        Inl e \<Rightarrow>
          (Raised e,
           m\<lparr>tp_service := Some (create_service nm
                 (ThreePhaseMeter_items_head w host port name fw role instance (tp_phase1position m)))\<rparr>,
           w)
      | Inr position \<Rightarrow>
          (Returned True,
           m\<lparr>tp_service := Some (create_service nm
                 (ThreePhaseMeter_items w host port name fw role instance position
                    (tp_phase1position m)))\<rparr>,
           w))"

text \<open>Lines 309 to 333: monitor, wait for localsettings, the three settings, role and phase.\<close>

definition ThreePhaseMeter_configure ::
  "'f ThreePhaseMeter \<Rightarrow> string \<Rightarrow> string \<Rightarrow> 'f pyval \<Rightarrow> 'f pyval \<Rightarrow> 'f pyval \<Rightarrow> world
     \<Rightarrow> bool outcome \<times> 'f ThreePhaseMeter \<times> world" where
  "ThreePhaseMeter_configure m host port name fw mac w =
     (let mon0 = \<lparr>aliases = Map.empty\<rparr>;
          m1 = m\<lparr>tp_monitor := Some mon0\<rparr>
      in case wait_for_settings mon0 w of
           None \<Rightarrow> (Returned False, m1, w)
         | Some settings \<Rightarrow>
            (case mac of
               PStr macs \<Rightarrow>
                 (let settingprefix = ''/Settings/Devices/shelly_'' @ macs;
                      (mon1, w1) = add_settings
                         [(settingprefix @ ''/ClassAndVrmInstance'', SStr ''grid:40'', ''instance''),
                          (settingprefix @ ''/Position'', SInt 0, ''position''),
                          (settingprefix @ ''/Phase1Position'', SInt 1, ''phase1position'')] settings w;
                      m2 = m1\<lparr>tp_monitor := Some mon1\<rparr>
                  in case settings_alias mon1 ''instance'' of
                       Inl e \<Rightarrow> (Raised e, m2, w1)
                     | Inr pinst \<Rightarrow>
                        (case role_instance (get_value w1 pinst) of
                           Inl e \<Rightarrow> (Raised e, m2, w1)
                         | Inr (role, instance) \<Rightarrow>
                            (case settings_alias mon1 ''phase1position'' of
                               Inl e \<Rightarrow> (Raised e, m2, w1)
                             | Inr pp \<Rightarrow>
                                 ThreePhaseMeter_publish (m2\<lparr>tp_phase1position := get_value w1 pp\<rparr>)
                                   mon1 host port name fw macs role instance w1)))
             | _ \<Rightarrow> (Raised TypeError, m1, w)))"

text \<open>
  Lines 290 to 307: the identity fields under \<^verbatim>\<open>except KeyError\<close>, the name under a bare
  \<^verbatim>\<open>except\<close>, and any model other than the three-line one is refused.
\<close>

definition ThreePhaseMeter_start ::
  "'f ThreePhaseMeter \<Rightarrow> string \<Rightarrow> string \<Rightarrow> 'f pydict \<Rightarrow> world
     \<Rightarrow> bool outcome \<times> 'f ThreePhaseMeter \<times> world" where
  "ThreePhaseMeter_start m host port data w =
     (case handshake_identity data of
        Inl KeyError \<Rightarrow> (Returned False, m, w)
      | Inl e \<Rightarrow> (Raised e, m, w)
      | Inr (mac, fw, model, app) \<Rightarrow>
          (let name = (case handshake_field data ''name'' of Inr n \<Rightarrow> n | Inl e \<Rightarrow> PNone)
           in if model = PStr ''SPEM-003CEBEU'' \<and> app = PStr ''Pro3EM''
              then ThreePhaseMeter_configure m host port name fw mac w
              else (Returned False, m, w)))"

definition ThreePhaseMeter_destroy :: "'f ThreePhaseMeter \<Rightarrow> 'f ThreePhaseMeter" where
  "ThreePhaseMeter_destroy m = m\<lparr>tp_service := None, tp_destroyed := True\<rparr>"

subsection \<open>ThreePhaseMeter.update\<close>

text \<open>
  The rotation table of \<^verbatim>\<open>update\<close>, and \<^verbatim>\<open>phaseorder[self.phase1position + k]\<close>: the
  phase-1 position has to be an int to be added to and to index the list.
\<close>

definition phaseorder :: "string list" where
  "phaseorder = ['''', ''a'', ''b'', ''c'', ''a'', ''b'']"

definition phase_letter :: "setting_value \<Rightarrow> int \<Rightarrow> error + string" where
  "phase_letter p k = (case p of SInt i \<Rightarrow> py_index phaseorder (i + k) | _ \<Rightarrow> Inl TypeError)"

text \<open>\<^verbatim>\<open>data[phaseorder[self.phase1position + k] + suffix]\<close>.\<close>

definition phase_field :: "'f pydict \<Rightarrow> setting_value \<Rightarrow> int \<Rightarrow> string \<Rightarrow> error + 'f pyval" where
  "phase_field data p k suffix =
     (case phase_letter p k of Inl e \<Rightarrow> Inl e | Inr letter \<Rightarrow> py_getitem data (letter @ suffix))"

text \<open>The assignments of the live block (lines 397 to 407) and of the energy block (413 to 420).\<close>

definition ThreePhaseMeter_live_block ::
  "'f float_ops \<Rightarrow> setting_value \<Rightarrow> 'f pydict \<Rightarrow> (string \<times> (error + 'f pyval)) list" where
  "ThreePhaseMeter_live_block fo p data =
     [(''/Ac/L1/Voltage'', phase_field data p 0 ''_voltage''),
      (''/Ac/L2/Voltage'', phase_field data p 1 ''_voltage''),
      (''/Ac/L3/Voltage'', phase_field data p 2 ''_voltage''),
      (''/Ac/L1/Current'', phase_field data p 0 ''_current''),
      (''/Ac/L2/Current'', phase_field data p 1 ''_current''),
      (''/Ac/L3/Current'', phase_field data p 2 ''_current''),
      (''/Ac/L1/Power'', phase_field data p 0 ''_act_power''),
      (''/Ac/L2/Power'', phase_field data p 1 ''_act_power''),
      (''/Ac/L3/Power'', phase_field data p 2 ''_act_power''),
      (''/Ac/Power'', py_add3 fo (py_getitem data ''a_act_power'') (py_getitem data ''b_act_power'')
                        (py_getitem data ''c_act_power''))]"

definition ThreePhaseMeter_data_block ::
  "'f float_ops \<Rightarrow> setting_value \<Rightarrow> 'f pydict \<Rightarrow> (string \<times> (error + 'f pyval)) list" where
  "ThreePhaseMeter_data_block fo p data =
     [(''/Ac/Energy/Forward'', py_kwh fo (py_getitem data ''total_act'')),
      (''/Ac/Energy/Reverse'', py_kwh fo (py_getitem data ''total_act_ret'')),
      (''/Ac/L1/Energy/Forward'', py_kwh fo (phase_field data p 0 ''_total_act_energy'')),
      (''/Ac/L1/Energy/Reverse'', py_kwh fo (phase_field data p 0 ''_total_act_ret_energy'')),
      (''/Ac/L2/Energy/Forward'', py_kwh fo (phase_field data p 1 ''_total_act_energy'')),
      (''/Ac/L2/Energy/Reverse'', py_kwh fo (phase_field data p 1 ''_total_act_ret_energy'')),
      (''/Ac/L3/Energy/Forward'', py_kwh fo (phase_field data p 2 ''_total_act_energy'')),
      (''/Ac/L3/Energy/Reverse'', py_kwh fo (phase_field data p 2 ''_total_act_ret_energy''))]"

text \<open>
  Lines 393 to 422, without the outermost \<^verbatim>\<open>try\<close>; each block sits in its own
  \<^verbatim>\<open>try ... except: pass\<close>.
\<close>

definition ThreePhaseMeter_update_tagged ::
  "'f float_ops \<Rightarrow> 'f ThreePhaseMeter \<Rightarrow> 'f pydict \<Rightarrow> 'f ThreePhaseMeter \<times> error option" where
  "ThreePhaseMeter_update_tagged fo m data =
     (case py_getitem data ''helpertag'' of
        Inl e \<Rightarrow> (m, Some e)
      | Inr helpertag \<Rightarrow>
          (case py_startswith helpertag ''em:'' of
             Inl e \<Rightarrow> (m, Some e)
           | Inr True \<Rightarrow>
               (m\<lparr>tp_service := fst (with_service (tp_service m)
                      (ThreePhaseMeter_live_block fo (tp_phase1position m) data))\<rparr>,
                None)
           | Inr False \<Rightarrow>
               (case py_startswith helpertag ''emdata:'' of
                  Inl e \<Rightarrow> (m, Some e)
                | Inr True \<Rightarrow>
                    (m\<lparr>tp_service := fst (with_service (tp_service m)
                           (ThreePhaseMeter_data_block fo (tp_phase1position m) data))\<rparr>,
                     None)
                | Inr False \<Rightarrow> (m, None))))"

text \<open>
  \<^verbatim>\<open>ThreePhaseMeter.update\<close>: all of it under \<^verbatim>\<open>try ... except: pass\<close>, which drops the
  exception. The result is the channel and the exception that leaves \<^verbatim>\<open>update\<close>, if any.
\<close>

definition ThreePhaseMeter_update ::
  "'f float_ops \<Rightarrow> 'f ThreePhaseMeter \<Rightarrow> 'f pydict \<Rightarrow> 'f ThreePhaseMeter \<times> error option" where
  "ThreePhaseMeter_update fo m data =
     (case ThreePhaseMeter_update_tagged fo m data of (m', e) \<Rightarrow> (m', None))"

subsection \<open>ThreePhaseMeter: callbacks\<close>

definition ThreePhaseMeter_settings_changed ::
  "'f ThreePhaseMeter \<Rightarrow> monitor \<Rightarrow> string list \<Rightarrow> 'f ThreePhaseMeter outcome" where
  "ThreePhaseMeter_settings_changed m svc vals =
     (case settings_alias svc ''instance'' of
        Inl e \<Rightarrow> Raised e
      | Inr p \<Rightarrow> Returned (if p \<in> set vals then ThreePhaseMeter_destroy m else m))"

definition ThreePhaseMeter_role_changed ::
  "'f ThreePhaseMeter \<Rightarrow> world \<Rightarrow> setting_value \<Rightarrow> bool outcome \<times> 'f ThreePhaseMeter \<times> world" where
  "ThreePhaseMeter_role_changed m w val =
     (if val \<notin> set (map SStr allowed_roles) then (Returned False, m, w)
      else case ThreePhaseMeter_get_settings m w of
             Inl e \<Rightarrow> (Raised e, m, w)
           | Inr None \<Rightarrow> (Returned False, m, w)
           | Inr (Some settings) \<Rightarrow>
               (case settings_alias settings ''instance'' of
                  Inl e \<Rightarrow> (Raised e, m, w)
                | Inr p \<Rightarrow>
                    (case role_instance (get_value w p) of
                       Inl e \<Rightarrow> (Raised e, m, w)
                     | Inr (role, instance) \<Rightarrow>
                         (Returned True, ThreePhaseMeter_destroy m,
                          set_value w p (SStr (py_str val @ '':'' @ py_str_int instance))))))"

definition ThreePhaseMeter_position_changed ::
  "'f ThreePhaseMeter \<Rightarrow> world \<Rightarrow> int \<Rightarrow> bool outcome \<times> 'f ThreePhaseMeter \<times> world" where
  "ThreePhaseMeter_position_changed m w val =
     (if \<not> (0 \<le> val \<and> val \<le> 2) then (Returned False, m, w)
      else case ThreePhaseMeter_get_settings m w of
             Inl e \<Rightarrow> (Raised e, m, w)
           | Inr None \<Rightarrow> (Returned False, m, w)
           | Inr (Some settings) \<Rightarrow>
               (case settings_alias settings ''position'' of
                  Inl e \<Rightarrow> (Raised e, m, w)
                | Inr p \<Rightarrow> (Returned True, m, set_value w p (SInt val))))"

definition ThreePhaseMeter_phase_changed ::
  "'f ThreePhaseMeter \<Rightarrow> world \<Rightarrow> int \<Rightarrow> bool outcome \<times> 'f ThreePhaseMeter \<times> world" where
  "ThreePhaseMeter_phase_changed m w val =
     (if \<not> (1 \<le> val \<and> val \<le> 3) then (Returned False, m, w)
      else case ThreePhaseMeter_get_settings m w of
             Inl e \<Rightarrow> (Raised e, m, w)
           | Inr None \<Rightarrow> (Returned False, m, w)
           | Inr (Some settings) \<Rightarrow>
               (case settings_alias settings ''phase1position'' of
                  Inl e \<Rightarrow> (Raised e, m, w)
                | Inr p \<Rightarrow>
                    (Returned True, m\<lparr>tp_phase1position := SInt val\<rparr>, set_value w p (SInt val))))"

section \<open>PhysicalMeter\<close>

text \<open>
  The device group owns its channels in the dictionary \<^verbatim>\<open>localmeters\<close> (channel index
  to channel) and their telemetry keys in \<^verbatim>\<open>localmeterskeys\<close> (channel index to a set of
  two keys). Both are association lists in insertion order, which is the order a Python
  dictionary iterates in; a set of keys is the list of its elements as written.
\<close>

datatype 'f channel = Single "'f SingleMeter" | Three "'f ThreePhaseMeter"

record 'f PhysicalMeter =
  pm_bus_type :: bus_type
  pm_destroyed :: bool
  localmeters :: "(int \<times> 'f channel) list"
  localmeterskeys :: "(int \<times> string list) list"

definition PhysicalMeter_init :: "bus_type \<Rightarrow> 'f PhysicalMeter" where
  "PhysicalMeter_init bt =
     \<lparr>pm_bus_type = bt, pm_destroyed = False, localmeters = [], localmeterskeys = []\<rparr>"

text \<open>\<^verbatim>\<open>d[k] = v\<close>: an existing key keeps its place, a new key goes to the end.\<close>

fun dict_set :: "('k \<times> 'v) list \<Rightarrow> 'k \<Rightarrow> 'v \<Rightarrow> ('k \<times> 'v) list" where
  "dict_set [] k v = [(k, v)]"
| "dict_set ((k', v') # kvs) k v = (if k' = k then (k, v) # kvs else (k', v') # dict_set kvs k v)"

definition channel_destroyed :: "'f channel \<Rightarrow> bool" where
  "channel_destroyed ch = (case ch of Single m \<Rightarrow> sm_destroyed m | Three m \<Rightarrow> tp_destroyed m)"

subsection \<open>PhysicalMeter.start\<close>

text \<open>
  The loop \<^verbatim>\<open>for meter in range(n)\<close> of \<^verbatim>\<open>start\<close>: the channel is created and entered
  into both dictionaries, then started. The dictionary holds the channel object itself,
  so it shows what \<^verbatim>\<open>start\<close> did to the channel. A channel whose \<^verbatim>\<open>start\<close> returns
  \<^verbatim>\<open>False\<close> ends \<^verbatim>\<open>PhysicalMeter.start\<close> with \<^verbatim>\<open>return False\<close>. After the loop the method
  runs to its end without a \<^verbatim>\<open>return\<close>, so it returns \<^verbatim>\<open>None\<close>: the returned value is
  \<open>Some False\<close> for \<^verbatim>\<open>False\<close> and \<open>None\<close> for \<^verbatim>\<open>None\<close>.
\<close>

fun start_single_meters ::
  "int list \<Rightarrow> 'f PhysicalMeter \<Rightarrow> string \<Rightarrow> string \<Rightarrow> 'f pydict \<Rightarrow> world
     \<Rightarrow> bool option outcome \<times> 'f PhysicalMeter \<times> world" where
  "start_single_meters [] pm host port data w = (Returned None, pm, w)"
| "start_single_meters (meter # rest) pm host port data w =
     (let m = SingleMeter_init (pm_bus_type pm) meter;
          pm1 = pm\<lparr>localmeters := dict_set (localmeters pm) meter (Single m),
                    localmeterskeys := dict_set (localmeterskeys pm) meter
                       [''em1:'' @ py_str_int meter, ''em1data:'' @ py_str_int meter]\<rparr>
      in case SingleMeter_start m host port data w of
           (r, m', w') \<Rightarrow>
             (let pm2 = pm1\<lparr>localmeters := dict_set (localmeters pm1) meter (Single m')\<rparr>
              in case r of
                   Raised e \<Rightarrow> (Raised e, pm2, w')
                 | Returned ok \<Rightarrow>
                     if \<not> ok then (Returned (Some False), pm2, w')
                     else start_single_meters rest pm2 host port data w'))"

definition start_three_phase_meter ::
  "'f PhysicalMeter \<Rightarrow> string \<Rightarrow> string \<Rightarrow> 'f pydict \<Rightarrow> world
     \<Rightarrow> bool option outcome \<times> 'f PhysicalMeter \<times> world" where
  "start_three_phase_meter pm host port data w =
     (let m = ThreePhaseMeter_init (pm_bus_type pm);
          pm1 = pm\<lparr>localmeters := dict_set (localmeters pm) 0 (Three m),
                    localmeterskeys := dict_set (localmeterskeys pm) 0 [''em:0'', ''emdata:0'']\<rparr>
      in case ThreePhaseMeter_start m host port data w of
           (r, m', w') \<Rightarrow>
             (let pm2 = pm1\<lparr>localmeters := dict_set (localmeters pm1) 0 (Three m')\<rparr>
              in case r of
                   Raised e \<Rightarrow> (Raised e, pm2, w')
                 | Returned ok \<Rightarrow>
                     if \<not> ok then (Returned (Some False), pm2, w')
                     else (Returned None, pm2, w')))"

text \<open>
  \<^verbatim>\<open>PhysicalMeter.start\<close>: model and application are read under \<^verbatim>\<open>except KeyError\<close>, as is
  the profile of the three-line device. (The name read at lines 492 to 495 is not used.)
\<close>

definition PhysicalMeter_start ::
  "'f PhysicalMeter \<Rightarrow> string \<Rightarrow> string \<Rightarrow> 'f pydict \<Rightarrow> world
     \<Rightarrow> bool option outcome \<times> 'f PhysicalMeter \<times> world" where
  "PhysicalMeter_start pm host port data w =
     (case handshake_field data ''model'' of
        Inl KeyError \<Rightarrow> (Returned (Some False), pm, w)
      | Inl e \<Rightarrow> (Raised e, pm, w)
      | Inr model \<Rightarrow>
     (case handshake_field data ''app'' of
        Inl KeyError \<Rightarrow> (Returned (Some False), pm, w)
      | Inl e \<Rightarrow> (Raised e, pm, w)
      | Inr app \<Rightarrow>
          if model = PStr ''SPEM-002CEBEU50'' \<and> app = PStr ''ProEM''
          then start_single_meters [0, 1] pm host port data w
          else if model = PStr ''SPEM-003CEBEU'' \<and> app = PStr ''Pro3EM''
          then (case handshake_field data ''profile'' of
                  Inl KeyError \<Rightarrow> (Returned (Some False), pm, w)
                | Inl e \<Rightarrow> (Raised e, pm, w)
                | Inr profile \<Rightarrow>
                    if profile = PStr ''monophase''
                    then start_single_meters [0, 1, 2] pm host port data w
                    else start_three_phase_meter pm host port data w)
          else (Returned (Some False), pm, w)))"

subsection \<open>PhysicalMeter.destroy and PhysicalMeter.update\<close>

text \<open>
  \<^verbatim>\<open>for meter in self.localmeters\<close> iterates over the keys of the dictionary, which are
  the channel indices: \<^verbatim>\<open>meter\<close> is an int, and \<^verbatim>\<open>meter.destroyed\<close> and \<^verbatim>\<open>meter.destroy\<close>
  are attribute loads on an int. Of the names the module loads, an int has none; its
  data attributes are listed for completeness.
\<close>

definition int_getattr :: "int \<Rightarrow> string \<Rightarrow> error + int" where
  "int_getattr n a =
     (if a = ''real'' \<or> a = ''numerator'' then Inr n
      else if a = ''imag'' then Inr 0
      else if a = ''denominator'' then Inr 1
      else Inl AttributeError)"

text \<open>
  The loop of \<^verbatim>\<open>destroy\<close>: \<^verbatim>\<open>if not meter.destroyed: meter.destroy()\<close>. Calling an int
  attribute raises TypeError.
\<close>

fun destroy_loop :: "int list \<Rightarrow> error option" where
  "destroy_loop [] = None"
| "destroy_loop (meter # rest) =
     (case int_getattr meter ''destroyed'' of
        Inl e \<Rightarrow> Some e
      | Inr d \<Rightarrow>
          if d = 0
          then (case int_getattr meter ''destroy'' of Inl e \<Rightarrow> Some e | Inr f \<Rightarrow> Some TypeError)
          else destroy_loop rest)"

definition PhysicalMeter_destroy :: "'f PhysicalMeter \<Rightarrow> 'f PhysicalMeter \<times> error option" where
  "PhysicalMeter_destroy pm =
     (case destroy_loop (map fst (localmeters pm)) of
        Some e \<Rightarrow> (pm, Some e)
      | None \<Rightarrow> (pm\<lparr>pm_destroyed := True\<rparr>, None))"

text \<open>The first loop of \<^verbatim>\<open>update\<close>: \<^verbatim>\<open>if meter.destroyed: self.destroy()\<close>, outside any \<^verbatim>\<open>try\<close>.\<close>

fun sweep :: "int list \<Rightarrow> 'f PhysicalMeter \<Rightarrow> 'f PhysicalMeter \<times> error option" where
  "sweep [] pm = (pm, None)"
| "sweep (meter # rest) pm =
     (case int_getattr meter ''destroyed'' of
        Inl e \<Rightarrow> (pm, Some e)
      | Inr d \<Rightarrow>
          if d \<noteq> 0
          then (case PhysicalMeter_destroy pm of
                  (pm', Some e) \<Rightarrow> (pm', Some e)
                | (pm', None) \<Rightarrow> sweep rest pm')
          else sweep rest pm)"

definition channel_update ::
  "'f float_ops \<Rightarrow> 'f channel \<Rightarrow> 'f pydict \<Rightarrow> 'f channel \<times> error option" where
  "channel_update fo ch data =
     (case ch of
        Single m \<Rightarrow> (case SingleMeter_update fo m data of (m', e) \<Rightarrow> (Single m', e))
      | Three m \<Rightarrow> (case ThreePhaseMeter_update fo m data of (m', e) \<Rightarrow> (Three m', e)))"

text \<open>
  The inner loop \<^verbatim>\<open>for key in self.localmeterskeys[meter]\<close>: \<^verbatim>\<open>d[key]\<close> is read under
  \<^verbatim>\<open>except KeyError\<close>; the block found is tagged (\<^verbatim>\<open>emdata['helpertag'] = key\<close>, which needs
  a dictionary) and passed to the channel's \<^verbatim>\<open>update\<close>.
\<close>

fun forward_keys ::
  "'f float_ops \<Rightarrow> int \<Rightarrow> string list \<Rightarrow> 'f pyval \<Rightarrow> 'f PhysicalMeter
     \<Rightarrow> 'f PhysicalMeter \<times> error option" where
  "forward_keys fo meter [] d pm = (pm, None)"
| "forward_keys fo meter (key # rest) d pm =
     (case py_subscript d key of
        Inl KeyError \<Rightarrow> forward_keys fo meter rest d pm
      | Inl e \<Rightarrow> (pm, Some e)
      | Inr (PDict emdata) \<Rightarrow>
          (case map_of (localmeters pm) meter of
             None \<Rightarrow> (pm, Some KeyError)
           | Some ch \<Rightarrow>
               (case channel_update fo ch (dict_set emdata ''helpertag'' (PStr key)) of
                  (ch', e) \<Rightarrow>
                    (let pm' = pm\<lparr>localmeters := dict_set (localmeters pm) meter ch'\<rparr>
                     in case e of
                          Some x \<Rightarrow> (pm', Some x)
                        | None \<Rightarrow> forward_keys fo meter rest d pm')))
      | Inr _ \<Rightarrow> (pm, Some TypeError))"

fun forward_meters ::
  "'f float_ops \<Rightarrow> int list \<Rightarrow> 'f pyval \<Rightarrow> 'f PhysicalMeter \<Rightarrow> 'f PhysicalMeter \<times> error option" where
  "forward_meters fo [] d pm = (pm, None)"
| "forward_meters fo (meter # rest) d pm =
     (case map_of (localmeterskeys pm) meter of
        None \<Rightarrow> (pm, Some KeyError)
      | Some keys \<Rightarrow>
          (case forward_keys fo meter keys d pm of
             (pm', Some e) \<Rightarrow> (pm', Some e)
           | (pm', None) \<Rightarrow> forward_meters fo rest d pm'))"

text \<open>
  \<^verbatim>\<open>PhysicalMeter.update\<close>: the sweep, then the forwarding of a \<^verbatim>\<open>NotifyStatus\<close> frame
  under \<^verbatim>\<open>try ... except: pass\<close>. (\<^verbatim>\<open>self.localmeters\<close> is never \<^verbatim>\<open>None\<close>.) The result is
  the group and the exception that leaves \<^verbatim>\<open>update\<close>, if any.
\<close>

definition PhysicalMeter_update ::
  "'f float_ops \<Rightarrow> 'f PhysicalMeter \<Rightarrow> 'f pydict \<Rightarrow> 'f PhysicalMeter \<times> error option" where
  "PhysicalMeter_update fo pm data =
     (case sweep (map fst (localmeters pm)) pm of
        (pm1, Some e) \<Rightarrow> (pm1, Some e)
      | (pm1, None) \<Rightarrow>
          if py_get data ''method'' = PStr ''NotifyStatus''
          then (case py_getitem data ''params'' of
                  Inl e \<Rightarrow> (pm1, None)
                | Inr d \<Rightarrow> (fst (forward_meters fo (map fst (localmeters pm1)) d pm1), None))
          else (pm1, None))"

section \<open>Observations and concrete inputs\<close>




text \<open>
  Concrete inputs, on which the model is evaluated. Their frames hold integers only. For
  the float operations they use an abstraction that keeps of a float only that it is one:
  numeric results are not represented, and the operations raise where Python's do. An int
  converts to a float when its magnitude is below \<open>2 ^ 1024 - 2 ^ 970\<close> (from there on it
  rounds to \<open>2 ^ 1024\<close>, which is no float), and \<^verbatim>\<open>i / 1000\<close> is a float when the magnitude
  of \<open>i\<close> is below 1000 times that bound; float addition, float division by 1000 and
  \<^verbatim>\<open>round(x, 1)\<close> never raise.
\<close>

definition abstract_floats :: "unit float_ops" where
  "abstract_floats =
     \<lparr>fadd = (\<lambda>x y. ()),
      float_of_int = (\<lambda>i. if \<bar>i\<bar> < 2 ^ 1024 - 2 ^ 970 then Some () else None),
      int_div1000 = (\<lambda>i. if \<bar>i\<bar> < 1000 * (2 ^ 1024 - 2 ^ 970) then Some () else None),
      float_div1000 = (\<lambda>x. ()),
      round1 = (\<lambda>x. ())\<rparr>"

definition example_world :: world where
  "example_world =
     \<lparr>reachable = True, stored = Map.empty, MAIN_FILE = ''dbus-shelly.py'', VERSION = ''0.1''\<rparr>"

definition handshake_3em :: "unit pydict" where
  "handshake_3em =
     [(''result'', PDict [(''mac'', PStr ''AABBCC''), (''fw_id'', PStr ''fw1''),
                          (''model'', PStr ''SPEM-003CEBEU''), (''app'', PStr ''Pro3EM''),
                          (''profile'', PStr ''triphase'')])]"

definition handshake_3em_no_profile :: "unit pydict" where
  "handshake_3em_no_profile =
     [(''result'', PDict [(''mac'', PStr ''AABBCC''), (''fw_id'', PStr ''fw1''),
                          (''model'', PStr ''SPEM-003CEBEU''), (''app'', PStr ''Pro3EM'')])]"

definition handshake_em :: "unit pydict" where
  "handshake_em =
     [(''result'', PDict [(''mac'', PStr ''AABBCC''), (''fw_id'', PStr ''fw1''),
                          (''model'', PStr ''SPEM-002CEBEU50''), (''app'', PStr ''ProEM'')])]"

text \<open>The three-phase channel as \<^verbatim>\<open>start\<close> leaves it for that handshake and world.\<close>

definition started_three_phase :: "unit ThreePhaseMeter" where
  "started_three_phase =
     fst (snd (ThreePhaseMeter_start (ThreePhaseMeter_init SYSTEM) ''shelly'' ''80''
                 handshake_3em example_world))"


text \<open>The store as the start of that three-phase channel leaves it.\<close>

definition started_world :: world where
  "started_world =
     snd (snd (ThreePhaseMeter_start (ThreePhaseMeter_init SYSTEM :: unit ThreePhaseMeter)
                 ''shelly'' ''80'' handshake_3em example_world))"

text \<open>
  A single-phase channel and the store as \<^verbatim>\<open>SingleMeter.start\<close> leaves them for the
  handshake of the two-channel device: the channel has its monitor and its settings.
\<close>

definition configured_single :: "unit SingleMeter" where
  "configured_single =
     fst (snd (SingleMeter_start (SingleMeter_init SYSTEM 0) ''shelly'' ''80'' handshake_em
                 started_world))"

definition configured_world :: world where
  "configured_world =
     snd (snd (SingleMeter_start (SingleMeter_init SYSTEM 0 :: unit SingleMeter) ''shelly'' ''80''
                 handshake_em started_world))"

text \<open>The device group as \<^verbatim>\<open>PhysicalMeter.start\<close> leaves it for the three-line handshake.\<close>

definition started_group :: "unit PhysicalMeter" where
  "started_group =
     fst (snd (PhysicalMeter_start (PhysicalMeter_init SYSTEM) ''shelly'' ''80'' handshake_3em
                 example_world))"

text \<open>That group after its channel destroyed itself, as a role change makes it do.\<close>

definition group_with_destroyed_channel :: "unit PhysicalMeter" where
  "group_with_destroyed_channel =
     started_group\<lparr>localmeters :=
       dict_set (localmeters started_group) 0 (Three (ThreePhaseMeter_destroy started_three_phase))\<rparr>"


text \<open>No destroyed flag is set in the group: neither its own nor that of one of its channels.\<close>

definition nothing_destroyed :: "'f PhysicalMeter \<Rightarrow> bool" where
  "nothing_destroyed pm =
     (\<not> pm_destroyed pm \<and> (\<forall>ch \<in> snd ` set (localmeters pm). \<not> channel_destroyed ch))"

text \<open>The same world with localsettings absent from the bus.\<close>

definition unreachable_world :: world where
  "unreachable_world = example_world\<lparr>reachable := False\<rparr>"






section \<open>Blocks of assignments\<close>

lemma svc_setitem_dom: "svc_setitem s p v = Inr s' \<Longrightarrow> dom (items s') = dom (items s)"
  by (auto simp: svc_setitem_def split: if_splits)


text \<open>A block never adds or removes an item.\<close>

lemma run_block_dom: "run_block s stmts = (s', e) \<Longrightarrow> dom (items s') = dom (items s)"
proof (induction stmts arbitrary: s)
  case Nil
  then show ?case by simp
next
  case (Cons st stmts)
  obtain p r where st: "st = (p, r)" by (cases st)
  show ?case
  proof (cases r)
    case (Inl x)
    with Cons.prems st show ?thesis by simp
  next
    case (Inr v)
    show ?thesis
    proof (cases "svc_setitem s p v")
      case (Inl x)
      with Cons.prems st Inr show ?thesis by simp
    next
      case (Inr s1)
      with Cons.prems st \<open>r = Inr v\<close> have "run_block s1 stmts = (s', e)" by simp
      from Cons.IH[OF this] svc_setitem_dom[OF Inr] show ?thesis by simp
    qed
  qed
qed



section \<open>The phase rotation\<close>


text \<open>
  C5. For every phase-1 position \<open>p\<close> in 1, 2, 3, the entries \<open>p\<close>, \<open>p + 1\<close>, \<open>p + 2\<close> of the
  table \<^verbatim>\<open>["", "a", "b", "c", "a", "b"]\<close>, which the three-phase channel uses as the
  prefixes of the fields for the lines 1, 2, 3, exist and are the letters a, b, c rotated
  by \<open>p - 1\<close>: each letter once. The table is a function of \<open>p\<close>, so the same \<open>p\<close> gives the
  same assignment.
\<close>

theorem phase_remap_is_rotation:
  assumes "p \<in> {1, 2, 3}"
  shows "\<exists>l1 l2 l3. phase_letter (SInt p) 0 = Inr l1 \<and> phase_letter (SInt p) 1 = Inr l2
           \<and> phase_letter (SInt p) 2 = Inr l3
           \<and> [l1, l2, l3] = rotate (nat (p - 1)) [''a'', ''b'', ''c'']
           \<and> distinct [l1, l2, l3] \<and> set [l1, l2, l3] = {''a'', ''b'', ''c''}"
proof -
  from assms consider "p = 1" | "p = 2" | "p = 3" by auto
  then show ?thesis
  proof cases
    case 1
    then show ?thesis by (simp add: phase_letter_def py_index_def phaseorder_def)
  next
    case 2
    then show ?thesis by (auto simp add: phase_letter_def py_index_def phaseorder_def)
  next
    case 3
    then show ?thesis
      by (auto simp add: phase_letter_def py_index_def phaseorder_def numeral_2_eq_2)
  qed
qed

theorem phase_remap_is_rotation_witness:
  "(2::int) \<in> {1, 2, 3} \<and> phase_letter (SInt 2) 0 = Inr ''b'' \<and> phase_letter (SInt 2) 1 = Inr ''c''
     \<and> phase_letter (SInt 2) 2 = Inr ''a''"
  using phase_remap_is_rotation [of 2] by (auto simp: numeral_2_eq_2)

section \<open>The aggregate power of the three-phase channel\<close>





lemmas three_phase_start_eval =
  ThreePhaseMeter_start_def handshake_3em_def example_world_def handshake_identity_def
  handshake_field_def py_getitem_def py_subscript_def ThreePhaseMeter_configure_def
  wait_for_settings_def ThreePhaseMeter_init_def set_value_def settings_alias_def get_value_def
  role_instance_def py_index_def py_int_def py_strip_def is_space_def is_digit_def digit_val_def
  ThreePhaseMeter_publish_def position_item_def Let_def










section \<open>Integers as strings\<close>

lemma lt10_cases: "n < 10 \<Longrightarrow> n \<in> {0, 1, 2, 3, 4, 5, 6, 7, 8, 9::nat}"
  by auto

lemma digit_char_is_digit: "n < 10 \<Longrightarrow> is_digit (digit_char n)"
  by (drule lt10_cases) (auto simp: is_digit_def digit_char_def)

lemma digit_val_digit_char: "n < 10 \<Longrightarrow> digit_val (digit_char n) = int n"
  by (drule lt10_cases) (auto simp: digit_val_def digit_char_def)

lemma is_digit_plain: "is_digit c \<Longrightarrow> \<not> is_space c \<and> c \<noteq> CHR ''-'' \<and> c \<noteq> CHR ''+'' \<and> c \<noteq> CHR '':''"
  by (auto simp: is_digit_def is_space_def)

lemma nat_digits_digits: "\<forall>c \<in> set (nat_digits n). is_digit c"
proof (induction n rule: nat_digits.induct)
  case (1 n)
  show ?case
  proof (cases "n < 10")
    case True
    then show ?thesis by (simp add: nat_digits.simps[of n] digit_char_is_digit)
  next
    case False
    with 1 show ?thesis by (simp add: nat_digits.simps[of n] digit_char_is_digit)
  qed
qed

lemma nat_digits_nonempty: "nat_digits n \<noteq> []"
  by (simp add: nat_digits.simps[of n])

text \<open>Reading a run of digits folds them into the accumulator.\<close>

lemma parse_digits_run:
  "\<forall>c \<in> set xs. is_digit c \<Longrightarrow>
     parse_digits d acc xs =
       (if d \<or> xs \<noteq> [] then Some (foldl (\<lambda>a c. 10 * a + digit_val c) acc xs) else None)"
  by (induction xs arbitrary: d acc) auto

lemma foldl_nat_digits:
  "foldl (\<lambda>a c. 10 * a + digit_val c) acc (nat_digits n) = acc * 10 ^ length (nat_digits n) + int n"
proof (induction n arbitrary: acc rule: nat_digits.induct)
  case (1 n)
  show ?case
  proof (cases "n < 10")
    case True
    then show ?thesis by (simp add: nat_digits.simps[of n] digit_val_digit_char)
  next
    case False
    have m: "n mod 10 < 10" by simp
    have "int n = 10 * int (n div 10) + int (n mod 10)" by presburger
    with False 1[OF False, of acc] show ?thesis
      by (simp add: nat_digits.simps[of n] digit_val_digit_char[OF m] algebra_simps)
  qed
qed

lemma parse_nat_digits: "parse_digits False 0 (nat_digits n) = Some (int n)"
  using parse_digits_run[OF nat_digits_digits, of False 0 n] foldl_nat_digits[of 0 n]
  by (simp add: nat_digits_nonempty)

lemma py_strip_plain:
  assumes "s \<noteq> []" "\<not> is_space (hd s)" "\<not> is_space (last s)"
  shows "py_strip s = s"
proof -
  from assms(1,2) have a: "dropWhile is_space s = s" by (cases s) auto
  from assms(1,3) have "dropWhile is_space (rev s) = rev s"
    by (cases "rev s") (auto simp: hd_rev[symmetric])
  with a show ?thesis by (simp add: py_strip_def)
qed

lemma py_strip_str_int: "py_strip (py_str_int i) = py_str_int i"
proof -
  let ?n = "nat_digits (nat \<bar>i\<bar>)"
  have ne: "?n \<noteq> []" by (rule nat_digits_nonempty)
  have l: "\<not> is_space (last ?n)" and h: "\<not> is_space (hd ?n)"
    using nat_digits_digits[of "nat \<bar>i\<bar>"] ne is_digit_plain by auto
  show ?thesis
  proof (cases "i < 0")
    case True
    then have "py_str_int i = CHR ''-'' # ?n" by (simp add: py_str_int_def abs_if)
    with ne l show ?thesis by (simp add: py_strip_plain is_space_def)
  next
    case False
    then have "py_str_int i = ?n" by (simp add: py_str_int_def abs_if)
    with ne l h show ?thesis by (simp add: py_strip_plain)
  qed
qed

text \<open>\<^verbatim>\<open>int(str(i)) == i\<close>.\<close>

lemma py_int_str_int: "py_int (py_str_int i) = Inr i"
proof (cases "i < 0")
  case True
  then have s: "py_str_int i = CHR ''-'' # nat_digits (nat (- i))" by (simp add: py_str_int_def)
  show ?thesis
    using py_strip_str_int[of i] True
    by (simp add: py_int_def s parse_nat_digits)
next
  case False
  then have s: "py_str_int i = nat_digits (nat i)" by (simp add: py_str_int_def)
  obtain c cs where cs: "nat_digits (nat i) = c # cs"
    using nat_digits_nonempty[of "nat i"] by (cases "nat_digits (nat i)") auto
  have "is_digit c" using nat_digits_digits[of "nat i"] cs by simp
  then have c: "c \<noteq> CHR ''-''" "c \<noteq> CHR ''+''" using is_digit_plain by auto
  from parse_nat_digits[of "nat i"] cs have "parse_digits False 0 (c # cs) = Some (int (nat i))"
    by simp
  with py_strip_str_int[of i] False c cs show ?thesis
    by (simp add: py_int_def s del: parse_digits.simps)
qed

lemma nat_digits_no_colon: "CHR '':'' \<notin> set (nat_digits n)"
proof
  assume "CHR '':'' \<in> set (nat_digits n)"
  with nat_digits_digits[of n] have "is_digit CHR '':''" by blast
  then show False by (simp add: is_digit_def)
qed

lemma py_str_int_no_colon: "CHR '':'' \<notin> set (py_str_int i)"
  by (simp add: py_str_int_def nat_digits_no_colon)

lemma split_on_absent: "c \<notin> set s \<Longrightarrow> split_on c s = [s]"
  by (induction s) auto

lemma split_on_prefix:
  "c \<notin> set r \<Longrightarrow> split_on c (r @ c # s) = r # split_on c s"
  by (induction r) auto

text \<open>A value written as \<^verbatim>\<open>"{}:{}".format(role, instance)\<close> is read back as that pair.\<close>

lemma role_instance_written:
  "CHR '':'' \<notin> set r \<Longrightarrow> role_instance (SStr (r @ '':'' @ py_str_int i)) = Inr (r, i)"
  by (simp add: role_instance_def split_on_prefix split_on_absent py_str_int_no_colon py_index_def
      py_int_str_int)

lemma allowed_role_no_colon: "r \<in> set allowed_roles \<Longrightarrow> CHR '':'' \<notin> set r"
  by (auto simp: allowed_roles_def)

section \<open>The role callback\<close>

lemma single_role_changed_accepts:
  assumes "r \<in> set allowed_roles" "reachable w" "sm_monitor m = Some mon"
    "aliases mon ''instance'' = Some path" "role_instance (get_value w path) = Inr (old, inst)"
  shows "SingleMeter_role_changed m w (SStr r) =
           (Returned True, SingleMeter_destroy m, set_value w path (SStr (r @ '':'' @ py_str_int inst)))"
  using assms by (simp add: SingleMeter_role_changed_def SingleMeter_get_settings_def settings_alias_def)

lemma three_role_changed_accepts:
  assumes "r \<in> set allowed_roles" "reachable w" "tp_monitor m = Some mon"
    "aliases mon ''instance'' = Some path" "role_instance (get_value w path) = Inr (old, inst)"
  shows "ThreePhaseMeter_role_changed m w (SStr r) =
           (Returned True, ThreePhaseMeter_destroy m, set_value w path (SStr (r @ '':'' @ py_str_int inst)))"
  using assms
  by (simp add: ThreePhaseMeter_role_changed_def ThreePhaseMeter_get_settings_def settings_alias_def)

lemma stored_role_written:
  "r \<in> set allowed_roles \<Longrightarrow>
     role_instance (get_value (set_value w path (SStr (r @ '':'' @ py_str_int inst))) path) = Inr (r, inst)"
  using role_instance_written[OF allowed_role_no_colon, of r inst]
  by (simp add: get_value_def set_value_def)

text \<open>
  C6. The role callback of either channel: a value outside \<^verbatim>\<open>grid\<close>, \<^verbatim>\<open>pvinverter\<close>,
  \<^verbatim>\<open>genset\<close>, \<^verbatim>\<open>acload\<close> is rejected (\<^verbatim>\<open>False\<close>) and leaves the store and the channel as
  they were. A valid role, with the store reachable and holding a well-formed
  \<^verbatim>\<open>role:instance\<close> value for the channel, is accepted (\<^verbatim>\<open>True\<close>): the store then holds
  \<^verbatim>\<open>newrole:instance\<close> at that path and nothing else changed in it, reading it back gives
  the new role with the old instance, and the channel's destroyed flag is set.
\<close>

theorem role_changed_contract:
  fixes sm :: "'f SingleMeter" and tm :: "'f ThreePhaseMeter"
  shows "(val \<notin> set (map SStr allowed_roles) \<longrightarrow>
            SingleMeter_role_changed sm w val = (Returned False, sm, w)
          \<and> ThreePhaseMeter_role_changed tm w val = (Returned False, tm, w))
       \<and> (val = SStr r \<and> r \<in> set allowed_roles \<and> reachable w \<longrightarrow>
            (\<forall>mon path old inst.
               sm_monitor sm = Some mon \<and> aliases mon ''instance'' = Some path
               \<and> role_instance (get_value w path) = Inr (old, inst) \<longrightarrow>
               (\<exists>sm' w'. SingleMeter_role_changed sm w val = (Returned True, sm', w')
                  \<and> sm_destroyed sm'
                  \<and> stored w' = (stored w)(path \<mapsto> SStr (r @ '':'' @ py_str_int inst))
                  \<and> role_instance (get_value w' path) = Inr (r, inst)))
          \<and> (\<forall>mon path old inst.
               tp_monitor tm = Some mon \<and> aliases mon ''instance'' = Some path
               \<and> role_instance (get_value w path) = Inr (old, inst) \<longrightarrow>
               (\<exists>tm' w'. ThreePhaseMeter_role_changed tm w val = (Returned True, tm', w')
                  \<and> tp_destroyed tm'
                  \<and> stored w' = (stored w)(path \<mapsto> SStr (r @ '':'' @ py_str_int inst))
                  \<and> role_instance (get_value w' path) = Inr (r, inst))))"
proof (intro conjI impI allI)
  assume "val \<notin> set (map SStr allowed_roles)"
  then show "SingleMeter_role_changed sm w val = (Returned False, sm, w)"
    by (simp add: SingleMeter_role_changed_def)
next
  assume "val \<notin> set (map SStr allowed_roles)"
  then show "ThreePhaseMeter_role_changed tm w val = (Returned False, tm, w)"
    by (simp add: ThreePhaseMeter_role_changed_def)
next
  fix mon path old inst
  assume v: "val = SStr r \<and> r \<in> set allowed_roles \<and> reachable w"
    and s: "sm_monitor sm = Some mon \<and> aliases mon ''instance'' = Some path
            \<and> role_instance (get_value w path) = Inr (old, inst)"
  from v s single_role_changed_accepts[of r w sm mon path old inst]
  have "SingleMeter_role_changed sm w val =
          (Returned True, SingleMeter_destroy sm, set_value w path (SStr (r @ '':'' @ py_str_int inst)))"
    by simp
  moreover have "sm_destroyed (SingleMeter_destroy sm)" by (simp add: SingleMeter_destroy_def)
  moreover have "stored (set_value w path (SStr (r @ '':'' @ py_str_int inst)))
                   = (stored w)(path \<mapsto> SStr (r @ '':'' @ py_str_int inst))"
    by (simp add: set_value_def)
  moreover note stored_role_written[of r w path inst]
  ultimately show "\<exists>sm' w'. SingleMeter_role_changed sm w val = (Returned True, sm', w')
                  \<and> sm_destroyed sm'
                  \<and> stored w' = (stored w)(path \<mapsto> SStr (r @ '':'' @ py_str_int inst))
                  \<and> role_instance (get_value w' path) = Inr (r, inst)"
    using v by simp
next
  fix mon path old inst
  assume v: "val = SStr r \<and> r \<in> set allowed_roles \<and> reachable w"
    and s: "tp_monitor tm = Some mon \<and> aliases mon ''instance'' = Some path
            \<and> role_instance (get_value w path) = Inr (old, inst)"
  from v s three_role_changed_accepts[of r w tm mon path old inst]
  have "ThreePhaseMeter_role_changed tm w val =
          (Returned True, ThreePhaseMeter_destroy tm, set_value w path (SStr (r @ '':'' @ py_str_int inst)))"
    by simp
  moreover have "tp_destroyed (ThreePhaseMeter_destroy tm)" by (simp add: ThreePhaseMeter_destroy_def)
  moreover have "stored (set_value w path (SStr (r @ '':'' @ py_str_int inst)))
                   = (stored w)(path \<mapsto> SStr (r @ '':'' @ py_str_int inst))"
    by (simp add: set_value_def)
  moreover note stored_role_written[of r w path inst]
  ultimately show "\<exists>tm' w'. ThreePhaseMeter_role_changed tm w val = (Returned True, tm', w')
                  \<and> tp_destroyed tm'
                  \<and> stored w' = (stored w)(path \<mapsto> SStr (r @ '':'' @ py_str_int inst))
                  \<and> role_instance (get_value w' path) = Inr (r, inst)"
    using v by simp
qed


lemmas single_start_eval =
  SingleMeter_start_def handshake_em_def handshake_identity_def
  handshake_field_def py_getitem_def py_subscript_def SingleMeter_configure_def
  wait_for_settings_def SingleMeter_init_def set_value_def settings_alias_def get_value_def
  role_instance_def py_index_def py_int_def py_strip_def is_space_def is_digit_def digit_val_def
  SingleMeter_publish_def load_global_def module_globals_def Let_def
  py_str_int_def nat_digits.simps digit_char_def

lemma started_three_phase_monitor:
  "tp_monitor started_three_phase =
     Some \<lparr>aliases = [''instance'' \<mapsto> ''/Settings/Devices/shelly_AABBCC/ClassAndVrmInstance'',
                      ''position'' \<mapsto> ''/Settings/Devices/shelly_AABBCC/Position'',
                      ''phase1position'' \<mapsto> ''/Settings/Devices/shelly_AABBCC/Phase1Position'']\<rparr>"
  by (simp add: started_three_phase_def three_phase_start_eval)

lemma started_world_state:
  "started_world = example_world\<lparr>stored :=
             [''/Settings/Devices/shelly_AABBCC/ClassAndVrmInstance'' \<mapsto> SStr ''grid:40'',
              ''/Settings/Devices/shelly_AABBCC/Position'' \<mapsto> SInt 0,
              ''/Settings/Devices/shelly_AABBCC/Phase1Position'' \<mapsto> SInt 1]\<rparr>"
  by (simp add: started_world_def three_phase_start_eval)

lemma configured_single_state:
  "sm_monitor configured_single =
     Some \<lparr>aliases = [''instance'' \<mapsto> ''/Settings/Devices/shelly_AABBCC_0/ClassAndVrmInstance'',
                      ''position'' \<mapsto> ''/Settings/Devices/shelly_AABBCC_0/Position'',
                      ''phaseposition'' \<mapsto> ''/Settings/Devices/shelly_AABBCC_0/Phase'']\<rparr>"
  "sm_service configured_single = None"
  "sm_destroyed configured_single = False"
  "sm_phaseposition configured_single = SInt 1"
  by (simp_all add: configured_single_def started_world_state example_world_def single_start_eval)

lemma configured_world_state:
  "configured_world = example_world\<lparr>stored :=
             [''/Settings/Devices/shelly_AABBCC/ClassAndVrmInstance'' \<mapsto> SStr ''grid:40'',
              ''/Settings/Devices/shelly_AABBCC/Position'' \<mapsto> SInt 0,
              ''/Settings/Devices/shelly_AABBCC/Phase1Position'' \<mapsto> SInt 1,
              ''/Settings/Devices/shelly_AABBCC_0/ClassAndVrmInstance'' \<mapsto> SStr ''grid:40'',
              ''/Settings/Devices/shelly_AABBCC_0/Position'' \<mapsto> SInt 0,
              ''/Settings/Devices/shelly_AABBCC_0/Phase'' \<mapsto> SInt 1]\<rparr>"
  by (simp add: configured_world_def started_world_state example_world_def single_start_eval)

lemma role_instance_default: "role_instance (SStr ''grid:40'') = Inr (''grid'', 40)"
  by (simp add: role_instance_def py_index_def py_int_def py_strip_def is_space_def is_digit_def
      digit_val_def)

lemma py_str_int_40: "py_str_int 40 = ''40''"
  by (simp add: py_str_int_def nat_digits.simps digit_char_def)

theorem role_changed_contract_witness:
  "SingleMeter_role_changed configured_single configured_world (SStr ''battery'')
      = (Returned False, configured_single, configured_world)
   \<and> fst (SingleMeter_role_changed configured_single configured_world (SStr ''pvinverter'')) = Returned True
   \<and> sm_destroyed (fst (snd (SingleMeter_role_changed configured_single configured_world (SStr ''pvinverter''))))
   \<and> stored (snd (snd (SingleMeter_role_changed configured_single configured_world (SStr ''pvinverter''))))
        ''/Settings/Devices/shelly_AABBCC_0/ClassAndVrmInstance'' = Some (SStr ''pvinverter:40'')
   \<and> fst (ThreePhaseMeter_role_changed started_three_phase configured_world (SStr ''pvinverter'')) = Returned True
   \<and> tp_destroyed (fst (snd (ThreePhaseMeter_role_changed started_three_phase configured_world (SStr ''pvinverter''))))
   \<and> stored (snd (snd (ThreePhaseMeter_role_changed started_three_phase configured_world (SStr ''pvinverter''))))
        ''/Settings/Devices/shelly_AABBCC/ClassAndVrmInstance'' = Some (SStr ''pvinverter:40'')"
proof -
  have w: "reachable configured_world"
    "get_value configured_world ''/Settings/Devices/shelly_AABBCC_0/ClassAndVrmInstance'' = SStr ''grid:40''"
    "get_value configured_world ''/Settings/Devices/shelly_AABBCC/ClassAndVrmInstance'' = SStr ''grid:40''"
    by (simp_all add: configured_world_state example_world_def get_value_def)
  have r: "''pvinverter'' \<in> set allowed_roles" "SStr ''battery'' \<notin> set (map SStr allowed_roles)"
    by (simp_all add: allowed_roles_def)
  from role_changed_contract[of "SStr ''battery''" configured_single configured_world
      started_three_phase "''battery''"] r
  have a: "SingleMeter_role_changed configured_single configured_world (SStr ''battery'')
      = (Returned False, configured_single, configured_world)" by blast
  from role_changed_contract[of "SStr ''pvinverter''" configured_single configured_world
      started_three_phase "''pvinverter''"] r w
  have b: "(\<forall>mon path old inst.
               sm_monitor configured_single = Some mon \<and> aliases mon ''instance'' = Some path
               \<and> role_instance (get_value configured_world path) = Inr (old, inst) \<longrightarrow>
               (\<exists>sm' w'. SingleMeter_role_changed configured_single configured_world (SStr ''pvinverter'') = (Returned True, sm', w')
                  \<and> sm_destroyed sm'
                  \<and> stored w' = (stored configured_world)(path \<mapsto> SStr (''pvinverter'' @ '':'' @ py_str_int inst))
                  \<and> role_instance (get_value w' path) = Inr (''pvinverter'', inst)))"
    and c: "(\<forall>mon path old inst.
               tp_monitor started_three_phase = Some mon \<and> aliases mon ''instance'' = Some path
               \<and> role_instance (get_value configured_world path) = Inr (old, inst) \<longrightarrow>
               (\<exists>tm' w'. ThreePhaseMeter_role_changed started_three_phase configured_world (SStr ''pvinverter'') = (Returned True, tm', w')
                  \<and> tp_destroyed tm'
                  \<and> stored w' = (stored configured_world)(path \<mapsto> SStr (''pvinverter'' @ '':'' @ py_str_int inst))
                  \<and> role_instance (get_value w' path) = Inr (''pvinverter'', inst)))"
    by blast+
  from b[rule_format, of _ "''/Settings/Devices/shelly_AABBCC_0/ClassAndVrmInstance''" "''grid''" 40]
    configured_single_state(1) w(2) role_instance_default
  have b': "\<exists>sm' w'. SingleMeter_role_changed configured_single configured_world (SStr ''pvinverter'') = (Returned True, sm', w')
                  \<and> sm_destroyed sm'
                  \<and> stored w' = (stored configured_world)(''/Settings/Devices/shelly_AABBCC_0/ClassAndVrmInstance'' \<mapsto> SStr ''pvinverter:40'')"
    by (auto simp: py_str_int_40)
  from c[rule_format, of _ "''/Settings/Devices/shelly_AABBCC/ClassAndVrmInstance''" "''grid''" 40]
    started_three_phase_monitor w(3) role_instance_default
  have c': "\<exists>tm' w'. ThreePhaseMeter_role_changed started_three_phase configured_world (SStr ''pvinverter'') = (Returned True, tm', w')
                  \<and> tp_destroyed tm'
                  \<and> stored w' = (stored configured_world)(''/Settings/Devices/shelly_AABBCC/ClassAndVrmInstance'' \<mapsto> SStr ''pvinverter:40'')"
    by (auto simp: py_str_int_40)
  from a b' c' show ?thesis by auto
qed


section \<open>The position and phase callbacks\<close>

text \<open>
  A position write of 1 to a started three-phase channel, while localsettings is not on
  the bus: the value is in range and the write is rejected.
\<close>

theorem position_write_unreachable_store_counterexample:
  "(1::int) \<in> {0, 1, 2}
   \<and> ThreePhaseMeter_position_changed started_three_phase (started_world\<lparr>reachable := False\<rparr>) 1
       = (Returned False, started_three_phase, started_world\<lparr>reachable := False\<rparr>)"
  by (simp add: ThreePhaseMeter_position_changed_def ThreePhaseMeter_get_settings_def
      started_three_phase_monitor)

text \<open>
  C7, as amended. For a channel that has its monitor and its settings, and every integer
  \<open>v\<close>: the position callback accepts exactly when \<open>v\<close> is 0, 1 or 2 and the store is
  reachable; the phase callback accepts exactly when \<open>v\<close> is 1, 2 or 3 and the store is
  reachable. A rejected write leaves the store and the channel as they were. An accepted
  position write stores \<open>v\<close>; an accepted phase write stores \<open>v\<close> and makes it the phase
  assignment the channel's next updates use.
\<close>

theorem write_boundaries:
  fixes sm :: "'f SingleMeter" and tm :: "'f ThreePhaseMeter"
  assumes "sm_monitor sm = Some smon" "aliases smon ''position'' = Some spos"
    "aliases smon ''phaseposition'' = Some sph"
    and "tp_monitor tm = Some tmon" "aliases tmon ''position'' = Some tpos"
    "aliases tmon ''phase1position'' = Some tph"
  shows "SingleMeter_position_changed sm w v =
           (if v \<in> {0, 1, 2} \<and> reachable w
            then (Returned True, sm, w\<lparr>stored := (stored w)(spos \<mapsto> SInt v)\<rparr>)
            else (Returned False, sm, w))
       \<and> ThreePhaseMeter_position_changed tm w v =
           (if v \<in> {0, 1, 2} \<and> reachable w
            then (Returned True, tm, w\<lparr>stored := (stored w)(tpos \<mapsto> SInt v)\<rparr>)
            else (Returned False, tm, w))
       \<and> SingleMeter_phase_changed sm w v =
           (if v \<in> {1, 2, 3} \<and> reachable w
            then (Returned True, sm\<lparr>sm_phaseposition := SInt v\<rparr>, w\<lparr>stored := (stored w)(sph \<mapsto> SInt v)\<rparr>)
            else (Returned False, sm, w))
       \<and> ThreePhaseMeter_phase_changed tm w v =
           (if v \<in> {1, 2, 3} \<and> reachable w
            then (Returned True, tm\<lparr>tp_phase1position := SInt v\<rparr>, w\<lparr>stored := (stored w)(tph \<mapsto> SInt v)\<rparr>)
            else (Returned False, tm, w))"
proof -
  have pos: "v \<in> {0, 1, 2} \<longleftrightarrow> 0 \<le> v \<and> v \<le> 2" by auto
  have ph: "v \<in> {1, 2, 3} \<longleftrightarrow> 1 \<le> v \<and> v \<le> 3" by auto
  have a: "SingleMeter_position_changed sm w v =
           (if v \<in> {0, 1, 2} \<and> reachable w
            then (Returned True, sm, w\<lparr>stored := (stored w)(spos \<mapsto> SInt v)\<rparr>)
            else (Returned False, sm, w))"
    unfolding pos using assms(1-3)
    by (simp add: SingleMeter_position_changed_def SingleMeter_get_settings_def settings_alias_def
        set_value_def)
  have b: "ThreePhaseMeter_position_changed tm w v =
           (if v \<in> {0, 1, 2} \<and> reachable w
            then (Returned True, tm, w\<lparr>stored := (stored w)(tpos \<mapsto> SInt v)\<rparr>)
            else (Returned False, tm, w))"
    unfolding pos using assms(4-6)
    by (simp add: ThreePhaseMeter_position_changed_def ThreePhaseMeter_get_settings_def
        settings_alias_def set_value_def)
  have c: "SingleMeter_phase_changed sm w v =
           (if v \<in> {1, 2, 3} \<and> reachable w
            then (Returned True, sm\<lparr>sm_phaseposition := SInt v\<rparr>, w\<lparr>stored := (stored w)(sph \<mapsto> SInt v)\<rparr>)
            else (Returned False, sm, w))"
    unfolding ph using assms(1-3)
    by (simp add: SingleMeter_phase_changed_def SingleMeter_get_settings_def settings_alias_def
        set_value_def)
  have d: "ThreePhaseMeter_phase_changed tm w v =
           (if v \<in> {1, 2, 3} \<and> reachable w
            then (Returned True, tm\<lparr>tp_phase1position := SInt v\<rparr>, w\<lparr>stored := (stored w)(tph \<mapsto> SInt v)\<rparr>)
            else (Returned False, tm, w))"
    unfolding ph using assms(4-6)
    by (simp add: ThreePhaseMeter_phase_changed_def ThreePhaseMeter_get_settings_def
        settings_alias_def set_value_def)
  from a b c d show ?thesis by simp
qed

theorem write_boundaries_witness:
  "ThreePhaseMeter_phase_changed started_three_phase configured_world 2
     = (Returned True, started_three_phase\<lparr>tp_phase1position := SInt 2\<rparr>,
        configured_world\<lparr>stored := (stored configured_world)
           (''/Settings/Devices/shelly_AABBCC/Phase1Position'' \<mapsto> SInt 2)\<rparr>)
   \<and> SingleMeter_phase_changed configured_single configured_world 4
     = (Returned False, configured_single, configured_world)
   \<and> SingleMeter_position_changed configured_single configured_world 0
     = (Returned True, configured_single,
        configured_world\<lparr>stored := (stored configured_world)
           (''/Settings/Devices/shelly_AABBCC_0/Position'' \<mapsto> SInt 0)\<rparr>)
   \<and> ThreePhaseMeter_position_changed started_three_phase configured_world 3
     = (Returned False, started_three_phase, configured_world)"
proof -
  have w: "reachable configured_world" by (simp add: configured_world_state example_world_def)
  note wb = write_boundaries[of configured_single _ "''/Settings/Devices/shelly_AABBCC_0/Position''"
      "''/Settings/Devices/shelly_AABBCC_0/Phase''" started_three_phase _
      "''/Settings/Devices/shelly_AABBCC/Position''" "''/Settings/Devices/shelly_AABBCC/Phase1Position''"
      configured_world, OF configured_single_state(1) _ _ started_three_phase_monitor]
  from wb[of 2] wb[of 4] wb[of 0] wb[of 3] w show ?thesis by simp
qed

section \<open>Where the code raises\<close>

lemma three_phase_start_result:
  "ThreePhaseMeter_start (ThreePhaseMeter_init SYSTEM) ''shelly'' ''80'' handshake_3em example_world
     = (Returned True, started_three_phase, started_world)"
proof -
  have "fst (ThreePhaseMeter_start (ThreePhaseMeter_init SYSTEM :: unit ThreePhaseMeter) ''shelly'' ''80''
               handshake_3em example_world) = Returned True"
    by (simp add: three_phase_start_eval)
  then show ?thesis
    by (simp add: started_three_phase_def started_world_def prod_eq_iff)
qed

lemma handshake_3em_fields:
  "handshake_field handshake_3em ''model'' = Inr (PStr ''SPEM-003CEBEU'')"
  "handshake_field handshake_3em ''app'' = Inr (PStr ''Pro3EM'')"
  "handshake_field handshake_3em ''profile'' = Inr (PStr ''triphase'')"
  by (simp_all add: handshake_field_def py_getitem_def py_subscript_def handshake_3em_def)

lemma handshake_em_fields:
  "handshake_field handshake_em ''model'' = Inr (PStr ''SPEM-002CEBEU50'')"
  "handshake_field handshake_em ''app'' = Inr (PStr ''ProEM'')"
  by (simp_all add: handshake_field_def py_getitem_def py_subscript_def handshake_em_def)

lemma started_group_state:
  "localmeters started_group = [(0, Three started_three_phase)]"
  "localmeterskeys started_group = [(0, [''em:0'', ''emdata:0''])]"
  "pm_destroyed started_group = False"
  by (simp_all add: started_group_def PhysicalMeter_start_def start_three_phase_meter_def
      PhysicalMeter_init_def three_phase_start_result handshake_3em_fields)

text \<open>The sweep stops at the first channel index: an int has no attribute \<^verbatim>\<open>destroyed\<close>.\<close>

lemma sweep_raises: "ms \<noteq> [] \<Longrightarrow> sweep ms pm = (pm, Some AttributeError)"
  by (cases ms) (simp_all add: int_getattr_def)

lemma PhysicalMeter_update_raises:
  "localmeters pm \<noteq> [] \<Longrightarrow> PhysicalMeter_update fo pm data = (pm, Some AttributeError)"
  by (simp add: PhysicalMeter_update_def sweep_raises)

lemma PhysicalMeter_destroy_raises:
  "localmeters pm \<noteq> [] \<Longrightarrow> PhysicalMeter_destroy pm = (pm, Some AttributeError)"
  by (cases "localmeters pm") (simp_all add: PhysicalMeter_destroy_def int_getattr_def)

text \<open>
  C1 fails on the code; this is what the code does. A group that owns one channel, whose
  destroyed flag is true at entry: \<^verbatim>\<open>PhysicalMeter.update\<close> raises AttributeError in its
  first loop (the loop variable is the channel index, an int) and leaves the group as it
  was, with the group's destroyed flag false.
\<close>

theorem group_update_raises_on_destroyed_channel:
  "map (channel_destroyed \<circ> snd) (localmeters group_with_destroyed_channel) = [True]
   \<and> PhysicalMeter_update abstract_floats group_with_destroyed_channel []
       = (group_with_destroyed_channel, Some AttributeError)
   \<and> \<not> pm_destroyed group_with_destroyed_channel"
proof -
  have l: "localmeters group_with_destroyed_channel
             = [(0, Three (ThreePhaseMeter_destroy started_three_phase))]"
    by (simp add: group_with_destroyed_channel_def started_group_state)
  then have "localmeters group_with_destroyed_channel \<noteq> []" by simp
  from PhysicalMeter_update_raises[OF this] l show ?thesis
    by (simp add: channel_destroyed_def ThreePhaseMeter_destroy_def
        group_with_destroyed_channel_def started_group_state)
qed

text \<open>\<^verbatim>\<open>SingleMeter.start\<close> never returns \<^verbatim>\<open>True\<close>: the load of \<^verbatim>\<open>meterid\<close> raises first.\<close>

lemma load_meterid: "load_global ''meterid'' = Inl NameError"
  by (simp add: load_global_def module_globals_def)

lemma SingleMeter_publish_raises:
  "SingleMeter_publish m settings host port name fw mac role instance w = (Raised NameError, m, w)"
  by (simp add: SingleMeter_publish_def load_meterid)

lemma SingleMeter_configure_never_True:
  "fst (SingleMeter_configure m host port name fw mac w) \<noteq> Returned True"
proof (cases "wait_for_settings \<lparr>aliases = Map.empty\<rparr> w")
  case None
  then show ?thesis by (simp add: SingleMeter_configure_def)
next
  case (Some settings)
  show ?thesis
  proof (cases mac)
    case (PStr macs)
    with Some show ?thesis
      by (simp add: SingleMeter_configure_def SingleMeter_publish_raises Let_def
          del: add_settings.simps split: prod.splits sum.splits)
  qed (use Some in \<open>simp_all add: SingleMeter_configure_def\<close>)
qed

lemma SingleMeter_start_never_True:
  "fst (SingleMeter_start m host port data w) \<noteq> Returned True"
proof (cases "handshake_identity data")
  case (Inl e)
  then show ?thesis by (cases e) (simp_all add: SingleMeter_start_def)
next
  case (Inr idt)
  then show ?thesis
    by (cases idt) (simp add: SingleMeter_start_def Let_def SingleMeter_configure_never_True)
qed

lemma single_start_result:
  "SingleMeter_start (SingleMeter_init SYSTEM 0) ''shelly'' ''80'' handshake_em started_world
     = (Raised NameError, configured_single, configured_world)"
proof -
  have "fst (SingleMeter_start (SingleMeter_init SYSTEM 0 :: unit SingleMeter) ''shelly'' ''80''
               handshake_em started_world) = Raised NameError"
    by (simp add: started_world_state example_world_def single_start_eval)
  then show ?thesis
    by (simp add: configured_single_def configured_world_def prod_eq_iff)
qed

text \<open>
  C9 fails on the code; this is what the code does. The handshake of the two-channel device
  with all identity fields and a reachable store: \<^verbatim>\<open>PhysicalMeter.start\<close> raises NameError
  out of the start of the first channel, and the group holds the channel of index 0 only.
\<close>

theorem two_channel_start_raises:
  "fst (PhysicalMeter_start (PhysicalMeter_init SYSTEM :: unit PhysicalMeter) ''shelly'' ''80''
          handshake_em started_world) = Raised NameError
   \<and> map fst (localmeters (fst (snd (PhysicalMeter_start (PhysicalMeter_init SYSTEM :: unit PhysicalMeter)
          ''shelly'' ''80'' handshake_em started_world)))) = [0]"
  by (simp add: PhysicalMeter_start_def PhysicalMeter_init_def single_start_result
      handshake_em_fields)


text \<open>Nor does \<^verbatim>\<open>SingleMeter.update\<close> for a channel without a service or a frame that is no \<^verbatim>\<open>NotifyStatus\<close>.\<close>

lemma with_service_None: "fst (with_service so stmts) = None \<longleftrightarrow> so = None"
  by (cases so) (simp_all add: with_service_def split: prod.splits)

lemma SingleMeter_update_tagged_service:
  "sm_service (fst (SingleMeter_update_tagged fo m data)) = None \<longleftrightarrow> sm_service m = None"
proof (cases "py_getitem data ''helpertag''")
  case (Inl e)
  then show ?thesis by (simp add: SingleMeter_update_tagged_def)
next
  case (Inr tag)
  show ?thesis
  proof (cases "py_startswith tag ''em:''")
    case (Inl e)
    with Inr show ?thesis by (simp add: SingleMeter_update_tagged_def)
  next
    case live: (Inr b)
    show ?thesis
    proof (cases b)
      case True
      with Inr live show ?thesis by (simp add: SingleMeter_update_tagged_def with_service_None)
    next
      case False
      with Inr live show ?thesis
        by (cases "py_startswith tag ''emdata:''")
          (simp_all add: SingleMeter_update_tagged_def with_service_None split: bool.splits)
    qed
  qed
qed

lemma SingleMeter_update_guarded:
  assumes "sm_service m = None \<or> py_get data ''method'' \<noteq> PStr ''NotifyStatus''"
  shows "snd (SingleMeter_update fo m data) = None"
proof (cases "sm_service (fst (SingleMeter_update_tagged fo m data)) \<noteq> None
            \<and> py_get data ''method'' = PStr ''NotifyStatus''")
  case True
  with assms SingleMeter_update_tagged_service[of fo m data] show ?thesis by auto
next
  case False
  then show ?thesis
    unfolding SingleMeter_update_def Let_def by (simp only: if_False snd_conv)
qed

section \<open>Updates of a channel never raise\<close>










section \<open>Starting the device group\<close>

lemma set_dict_set: "set (dict_set kvs k v) \<subseteq> insert (k, v) (set kvs)"
  by (induction kvs) (auto split: if_splits)

lemma SingleMeter_publish_destroyed:
  "sm_destroyed (fst (snd (SingleMeter_publish m settings host port name fw mac role instance w)))
     = sm_destroyed m"
  by (simp add: SingleMeter_publish_raises)

lemma SingleMeter_configure_destroyed:
  "sm_destroyed (fst (snd (SingleMeter_configure m host port name fw mac w))) = sm_destroyed m"
proof (cases "wait_for_settings \<lparr>aliases = Map.empty\<rparr> w")
  case None
  then show ?thesis by (simp add: SingleMeter_configure_def)
next
  case (Some settings)
  show ?thesis
  proof (cases mac)
    case (PStr macs)
    with Some show ?thesis
      by (simp add: SingleMeter_configure_def SingleMeter_publish_raises Let_def
          del: add_settings.simps split: prod.splits sum.splits)
  qed (use Some in \<open>simp_all add: SingleMeter_configure_def\<close>)
qed

lemma SingleMeter_start_destroyed:
  "sm_destroyed (fst (snd (SingleMeter_start m host port data w))) = sm_destroyed m"
proof (cases "handshake_identity data")
  case (Inl e)
  then show ?thesis by (cases e) (simp_all add: SingleMeter_start_def)
next
  case (Inr idt)
  then show ?thesis
    by (cases idt) (simp add: SingleMeter_start_def Let_def SingleMeter_configure_destroyed)
qed

lemma ThreePhaseMeter_publish_destroyed:
  "tp_destroyed (fst (snd (ThreePhaseMeter_publish m settings host port name fw mac role instance w)))
     = tp_destroyed m"
  by (simp add: ThreePhaseMeter_publish_def Let_def split: sum.splits)

lemma ThreePhaseMeter_configure_destroyed:
  "tp_destroyed (fst (snd (ThreePhaseMeter_configure m host port name fw mac w))) = tp_destroyed m"
proof (cases "wait_for_settings \<lparr>aliases = Map.empty\<rparr> w")
  case None
  then show ?thesis by (simp add: ThreePhaseMeter_configure_def)
next
  case (Some settings)
  show ?thesis
  proof (cases mac)
    case (PStr macs)
    with Some show ?thesis
      by (simp add: ThreePhaseMeter_configure_def ThreePhaseMeter_publish_destroyed Let_def
          del: add_settings.simps split: prod.splits sum.splits)
  qed (use Some in \<open>simp_all add: ThreePhaseMeter_configure_def\<close>)
qed

lemma ThreePhaseMeter_start_destroyed:
  "tp_destroyed (fst (snd (ThreePhaseMeter_start m host port data w))) = tp_destroyed m"
proof (cases "handshake_identity data")
  case (Inl e)
  then show ?thesis by (cases e) (simp_all add: ThreePhaseMeter_start_def)
next
  case (Inr idt)
  then show ?thesis
    by (cases idt) (simp add: ThreePhaseMeter_start_def Let_def ThreePhaseMeter_configure_destroyed)
qed

lemma nothing_destroyed_set:
  assumes "nothing_destroyed pm" "\<not> channel_destroyed ch"
  shows "nothing_destroyed (pm\<lparr>localmeters := dict_set (localmeters pm) k ch\<rparr>)"
  using assms set_dict_set[of "localmeters pm" k ch]
  by (fastforce simp: nothing_destroyed_def)

lemma nothing_destroyed_keys [simp]:
  "nothing_destroyed (pm\<lparr>localmeterskeys := ks\<rparr>) = nothing_destroyed pm"
  by (simp add: nothing_destroyed_def)

lemma single_init_not_destroyed: "\<not> channel_destroyed (Single (SingleMeter_init bt i))"
  by (simp add: channel_destroyed_def SingleMeter_init_def)

lemma single_started_not_destroyed:
  "SingleMeter_start (SingleMeter_init bt i) host port data w = (r, m', w') \<Longrightarrow>
     \<not> channel_destroyed (Single m')"
  using SingleMeter_start_destroyed[of "SingleMeter_init bt i" host port data w]
  by (simp add: channel_destroyed_def SingleMeter_init_def)

lemma three_started_not_destroyed:
  "ThreePhaseMeter_start (ThreePhaseMeter_init bt) host port data w = (r, m', w') \<Longrightarrow>
     \<not> channel_destroyed (Three m')"
  using ThreePhaseMeter_start_destroyed[of "ThreePhaseMeter_init bt" host port data w]
  by (simp add: channel_destroyed_def ThreePhaseMeter_init_def)

text \<open>One round of the loop, for a channel whose \<^verbatim>\<open>start\<close> returns \<^verbatim>\<open>False\<close>.\<close>

lemma start_single_meters_failure:
  assumes "SingleMeter_start (SingleMeter_init (pm_bus_type pm) meter) host port data w
             = (Returned False, m', w')"
  shows "start_single_meters (meter # rest) pm host port data w =
           (Returned (Some False),
            pm\<lparr>localmeters := dict_set (localmeters pm) meter (Single m'),
                localmeterskeys := dict_set (localmeterskeys pm) meter
                   [''em1:'' @ py_str_int meter, ''em1data:'' @ py_str_int meter]\<rparr>,
            w')"
proof -
  have "dict_set (dict_set kvs k v) k v' = dict_set kvs k v'" for kvs :: "(int \<times> 'a channel) list" and k v v'
    by (induction kvs) auto
  with assms show ?thesis by (simp add: Let_def)
qed

lemma start_three_phase_meter_failure:
  assumes "ThreePhaseMeter_start (ThreePhaseMeter_init (pm_bus_type pm)) host port data w
             = (Returned False, m', w')"
  shows "start_three_phase_meter pm host port data w =
           (Returned (Some False),
            pm\<lparr>localmeters := dict_set (localmeters pm) 0 (Three m'),
                localmeterskeys := dict_set (localmeterskeys pm) 0 [''em:0'', ''emdata:0'']\<rparr>,
            w')"
proof -
  have "dict_set (dict_set kvs k v) k v' = dict_set kvs k v'" for kvs :: "(int \<times> 'a channel) list" and k v v'
    by (induction kvs) auto
  with assms show ?thesis by (simp add: start_three_phase_meter_def Let_def)
qed

lemma start_single_meters_nothing_destroyed:
  "nothing_destroyed pm \<Longrightarrow> start_single_meters ms pm host port data w = (r, pm', w') \<Longrightarrow>
     nothing_destroyed pm'"
proof (induction ms arbitrary: pm w)
  case Nil
  then show ?case by simp
next
  case (Cons meter rest)
  let ?m = "SingleMeter_init (pm_bus_type pm) meter"
  obtain r1 m1 w1 where st: "SingleMeter_start ?m host port data w = (r1, m1, w1)"
    by (cases "SingleMeter_start ?m host port data w") auto
  let ?pm1 = "pm\<lparr>localmeters := dict_set (localmeters pm) meter (Single ?m),
                    localmeterskeys := dict_set (localmeterskeys pm) meter
                       [''em1:'' @ py_str_int meter, ''em1data:'' @ py_str_int meter]\<rparr>"
  let ?pm2 = "?pm1\<lparr>localmeters := dict_set (localmeters ?pm1) meter (Single m1)\<rparr>"
  have p1: "nothing_destroyed ?pm1"
    using nothing_destroyed_set[OF Cons.prems(1) single_init_not_destroyed, of meter "pm_bus_type pm" meter]
    by simp
  have p2: "nothing_destroyed ?pm2"
    by (rule nothing_destroyed_set[OF p1 single_started_not_destroyed[OF st]])
  show ?case
  proof (cases r1)
    case (Raised e)
    with Cons.prems(2) st have "pm' = ?pm2" by (simp add: Let_def)
    with p2 show ?thesis by simp
  next
    case (Returned ok)
    show ?thesis
    proof (cases ok)
      case False
      with Returned Cons.prems(2) st have "pm' = ?pm2" by (simp add: Let_def)
      with p2 show ?thesis by simp
    next
      case True
      with Returned Cons.prems(2) st
      have "start_single_meters rest ?pm2 host port data w1 = (r, pm', w')" by (simp add: Let_def)
      from Cons.IH[OF p2 this] show ?thesis .
    qed
  qed
qed

lemma start_three_phase_meter_nothing_destroyed:
  assumes "nothing_destroyed pm" "start_three_phase_meter pm host port data w = (r, pm', w')"
  shows "nothing_destroyed pm'"
proof -
  let ?m = "ThreePhaseMeter_init (pm_bus_type pm)"
  obtain r1 m1 w1 where st: "ThreePhaseMeter_start ?m host port data w = (r1, m1, w1)"
    by (cases "ThreePhaseMeter_start ?m host port data w") auto
  let ?pm1 = "pm\<lparr>localmeters := dict_set (localmeters pm) 0 (Three ?m),
                    localmeterskeys := dict_set (localmeterskeys pm) 0 [''em:0'', ''emdata:0'']\<rparr>"
  let ?pm2 = "?pm1\<lparr>localmeters := dict_set (localmeters ?pm1) 0 (Three m1)\<rparr>"
  have "\<not> channel_destroyed (Three ?m)"
    by (simp add: channel_destroyed_def ThreePhaseMeter_init_def)
  from nothing_destroyed_set[OF assms(1) this, of 0]
  have p1: "nothing_destroyed ?pm1" by simp
  have p2: "nothing_destroyed ?pm2"
    by (rule nothing_destroyed_set[OF p1 three_started_not_destroyed[OF st]])
  from assms(2) st have "pm' = ?pm2"
    by (cases r1) (auto simp: start_three_phase_meter_def Let_def split: if_splits)
  with p2 show ?thesis by simp
qed

lemma PhysicalMeter_start_nothing_destroyed:
  assumes "nothing_destroyed pm" "PhysicalMeter_start pm host port data w = (r, pm', w')"
  shows "nothing_destroyed pm'"
proof -
  from assms(2) consider "pm' = pm"
    | ms where "start_single_meters ms pm host port data w = (r, pm', w')"
    | "start_three_phase_meter pm host port data w = (r, pm', w')"
    by (auto simp: PhysicalMeter_start_def simp del: start_single_meters.simps
        split: sum.splits error.splits if_splits)
  then show ?thesis
  proof cases
    case 1
    with assms(1) show ?thesis by simp
  next
    case 2
    from start_single_meters_nothing_destroyed[OF assms(1) this] show ?thesis .
  next
    case 3
    from start_three_phase_meter_nothing_destroyed[OF assms(1) this] show ?thesis .
  qed
qed

lemma handshake_field_of_dict:
  "py_getitem data ''result'' = Inr (PDict d) \<Longrightarrow>
     handshake_field data k = Inl KeyError \<or> (\<exists>v. handshake_field data k = Inr v)"
  by (simp add: handshake_field_def py_subscript_def py_getitem_def split: option.splits)

lemma handshake_field_result:
  "handshake_field data k = Inr v \<Longrightarrow> \<exists>d. py_getitem data ''result'' = Inr (PDict d)"
  by (auto simp: handshake_field_def py_subscript_def split: sum.splits pyval.splits)

lemma handshake_identity_of_dict:
  assumes "py_getitem data ''result'' = Inr (PDict d)"
  shows "handshake_identity data = Inl KeyError \<or> (\<exists>t. handshake_identity data = Inr t)"
  using handshake_field_of_dict[OF assms, of "''mac''"] handshake_field_of_dict[OF assms, of "''fw_id''"]
    handshake_field_of_dict[OF assms, of "''model''"] handshake_field_of_dict[OF assms, of "''app''"]
  by (auto simp: handshake_identity_def)

text \<open>With the store out of reach, a channel's \<^verbatim>\<open>start\<close> returns \<^verbatim>\<open>False\<close>.\<close>

lemma SingleMeter_start_unreachable:
  assumes "\<not> reachable w" "py_getitem data ''result'' = Inr (PDict d)"
  shows "fst (SingleMeter_start m host port data w) = Returned False"
  using handshake_identity_of_dict[OF assms(2)] assms(1)
  by (auto simp: SingleMeter_start_def SingleMeter_configure_def wait_for_settings_def Let_def)

lemma ThreePhaseMeter_start_unreachable:
  assumes "\<not> reachable w" "py_getitem data ''result'' = Inr (PDict d)"
  shows "fst (ThreePhaseMeter_start m host port data w) = Returned False"
  using handshake_identity_of_dict[OF assms(2)] assms(1)
  by (auto simp: ThreePhaseMeter_start_def ThreePhaseMeter_configure_def wait_for_settings_def Let_def)

lemma start_single_meters_unreachable:
  assumes "\<not> reachable w" "py_getitem data ''result'' = Inr (PDict d)"
  shows "fst (start_single_meters (meter # rest) pm host port data w) = Returned (Some False)"
proof -
  let ?st = "SingleMeter_start (SingleMeter_init (pm_bus_type pm) meter) host port data w"
  from SingleMeter_start_unreachable[OF assms] have "fst ?st = Returned False" .
  then have "?st = (Returned False, fst (snd ?st), snd (snd ?st))" by (simp add: prod_eq_iff)
  from start_single_meters_failure[OF this] show ?thesis by simp
qed

lemma start_three_phase_meter_unreachable:
  assumes "\<not> reachable w" "py_getitem data ''result'' = Inr (PDict d)"
  shows "fst (start_three_phase_meter pm host port data w) = Returned (Some False)"
proof -
  let ?st = "ThreePhaseMeter_start (ThreePhaseMeter_init (pm_bus_type pm)) host port data w"
  from ThreePhaseMeter_start_unreachable[OF assms] have "fst ?st = Returned False" .
  then have "?st = (Returned False, fst (snd ?st), snd (snd ?st))" by (simp add: prod_eq_iff)
  from start_three_phase_meter_failure[OF this] show ?thesis by simp
qed

lemma PhysicalMeter_start_unreachable:
  assumes "\<not> reachable w" "PhysicalMeter_start pm host port data w = (r, pm', w')"
  shows "r = Returned (Some False) \<or> (pm' = pm \<and> (\<exists>e. r = Raised e))"
proof (cases "handshake_field data ''model''")
  case (Inl e)
  with assms(2) show ?thesis by (cases e) (auto simp: PhysicalMeter_start_def)
next
  case (Inr model)
  from handshake_field_result[OF this] obtain d where d: "py_getitem data ''result'' = Inr (PDict d)"
    by blast
  note s1 = start_single_meters_unreachable[OF assms(1) d, where pm = pm and host = host and port = port]
  note s2 = start_three_phase_meter_unreachable[OF assms(1) d, where pm = pm and host = host and port = port]
  from handshake_field_of_dict[OF d, of "''app''"] handshake_field_of_dict[OF d, of "''profile''"]
    assms(2) Inr s1[of 0 "[1]"] s1[of 0 "[1, 2]"] s2 show ?thesis
    by (auto simp: PhysicalMeter_start_def simp del: start_single_meters.simps split: if_splits)
qed

text \<open>
  C2, as amended. When the start of the channel just created returns failure,
  \<^verbatim>\<open>PhysicalMeter.start\<close> returns \<^verbatim>\<open>False\<close> at once, in the loop over single-phase channels
  and for the three-phase channel alike: the failed channel stays in the group, its
  destroyed flag is false, and the rest of the group is as it was. Whatever
  \<^verbatim>\<open>PhysicalMeter.start\<close> does on a new group, afterwards no destroyed flag is set, neither
  the group's nor a channel's. With the store out of reach, every handshake for which a
  channel is created ends in \<^verbatim>\<open>False\<close>.
\<close>

theorem failed_channel_start_destroys_nothing:
  fixes pm :: "'f PhysicalMeter"
  shows "(SingleMeter_start (SingleMeter_init (pm_bus_type pm) meter) host port data w
            = (Returned False, sm, w1) \<longrightarrow>
          start_single_meters (meter # rest) pm host port data w =
            (Returned (Some False),
             pm\<lparr>localmeters := dict_set (localmeters pm) meter (Single sm),
                 localmeterskeys := dict_set (localmeterskeys pm) meter
                    [''em1:'' @ py_str_int meter, ''em1data:'' @ py_str_int meter]\<rparr>,
             w1)
          \<and> \<not> sm_destroyed sm)
       \<and> (ThreePhaseMeter_start (ThreePhaseMeter_init (pm_bus_type pm)) host port data w
            = (Returned False, tm, w1) \<longrightarrow>
          start_three_phase_meter pm host port data w =
            (Returned (Some False),
             pm\<lparr>localmeters := dict_set (localmeters pm) 0 (Three tm),
                 localmeterskeys := dict_set (localmeterskeys pm) 0 [''em:0'', ''emdata:0'']\<rparr>,
             w1)
          \<and> \<not> tp_destroyed tm)
       \<and> (PhysicalMeter_start (PhysicalMeter_init bt) host port data w = (r, pmr, wr) \<longrightarrow>
            \<not> pm_destroyed pmr \<and> (\<forall>ch \<in> snd ` set (localmeters pmr). \<not> channel_destroyed ch)
            \<and> (\<not> reachable w \<and> localmeters pmr \<noteq> [] \<longrightarrow> r = Returned (Some False)))"
proof (intro conjI impI)
  assume a: "SingleMeter_start (SingleMeter_init (pm_bus_type pm) meter) host port data w
            = (Returned False, sm, w1)"
  from start_single_meters_failure[OF a]
  show "start_single_meters (meter # rest) pm host port data w =
            (Returned (Some False),
             pm\<lparr>localmeters := dict_set (localmeters pm) meter (Single sm),
                 localmeterskeys := dict_set (localmeterskeys pm) meter
                    [''em1:'' @ py_str_int meter, ''em1data:'' @ py_str_int meter]\<rparr>,
             w1)" .
  from single_started_not_destroyed[OF a] show "\<not> sm_destroyed sm"
    by (simp add: channel_destroyed_def)
next
  assume a: "ThreePhaseMeter_start (ThreePhaseMeter_init (pm_bus_type pm)) host port data w
            = (Returned False, tm, w1)"
  from start_three_phase_meter_failure[OF a]
  show "start_three_phase_meter pm host port data w =
            (Returned (Some False),
             pm\<lparr>localmeters := dict_set (localmeters pm) 0 (Three tm),
                 localmeterskeys := dict_set (localmeterskeys pm) 0 [''em:0'', ''emdata:0'']\<rparr>,
             w1)" .
  from three_started_not_destroyed[OF a] show "\<not> tp_destroyed tm"
    by (simp add: channel_destroyed_def)
next
  assume a: "PhysicalMeter_start (PhysicalMeter_init bt) host port data w = (r, pmr, wr)"
  have "nothing_destroyed (PhysicalMeter_init bt :: 'f PhysicalMeter)"
    by (simp add: nothing_destroyed_def PhysicalMeter_init_def)
  from PhysicalMeter_start_nothing_destroyed[OF this a]
  show "\<not> pm_destroyed pmr" and "\<forall>ch \<in> snd ` set (localmeters pmr). \<not> channel_destroyed ch"
    by (simp_all add: nothing_destroyed_def)
  show "r = Returned (Some False)" if "\<not> reachable w \<and> localmeters pmr \<noteq> []"
    using PhysicalMeter_start_unreachable[OF _ a] that by (auto simp: PhysicalMeter_init_def)
qed

lemma handshake_identity_em:
  "handshake_identity handshake_em
     = Inr (PStr ''AABBCC'', PStr ''fw1'', PStr ''SPEM-002CEBEU50'', PStr ''ProEM'')"
  by (simp add: handshake_identity_def handshake_field_def py_getitem_def py_subscript_def
      handshake_em_def)

lemma handshake_identity_3em:
  "handshake_identity handshake_3em
     = Inr (PStr ''AABBCC'', PStr ''fw1'', PStr ''SPEM-003CEBEU'', PStr ''Pro3EM'')"
  by (simp add: handshake_identity_def handshake_field_def py_getitem_def py_subscript_def
      handshake_3em_def)

lemma single_start_unreachable_result:
  "SingleMeter_start (SingleMeter_init bt i) host port handshake_em unreachable_world
     = (Returned False, (SingleMeter_init bt i)\<lparr>sm_monitor := Some \<lparr>aliases = Map.empty\<rparr>\<rparr>,
        unreachable_world)"
  by (simp add: SingleMeter_start_def handshake_identity_em SingleMeter_configure_def
      wait_for_settings_def unreachable_world_def example_world_def Let_def)

lemma three_start_unreachable_result:
  "ThreePhaseMeter_start (ThreePhaseMeter_init bt) host port handshake_3em unreachable_world
     = (Returned False, (ThreePhaseMeter_init bt)\<lparr>tp_monitor := Some \<lparr>aliases = Map.empty\<rparr>\<rparr>,
        unreachable_world)"
  by (simp add: ThreePhaseMeter_start_def handshake_identity_3em ThreePhaseMeter_configure_def
      wait_for_settings_def unreachable_world_def example_world_def Let_def)

lemma group_start_unreachable_result:
  "PhysicalMeter_start (PhysicalMeter_init SYSTEM) ''shelly'' ''80'' handshake_em unreachable_world
     = (Returned (Some False),
        \<lparr>pm_bus_type = SYSTEM, pm_destroyed = False,
         localmeters = [(0, Single ((SingleMeter_init SYSTEM 0)\<lparr>sm_monitor := Some \<lparr>aliases = Map.empty\<rparr>\<rparr>))],
         localmeterskeys = [(0, [''em1:0'', ''em1data:0''])]\<rparr>,
        unreachable_world)"
  by (simp add: PhysicalMeter_start_def PhysicalMeter_init_def handshake_em_fields
      single_start_unreachable_result Let_def py_str_int_def nat_digits.simps digit_char_def)

text \<open>
  The two-channel handshake while localsettings is absent: \<^verbatim>\<open>PhysicalMeter.start\<close> returns
  \<^verbatim>\<open>False\<close>, and the channel it created is in the group with its destroyed flag false.
\<close>

theorem failed_start_keeps_channel_counterexample:
  "fst (PhysicalMeter_start (PhysicalMeter_init SYSTEM :: unit PhysicalMeter) ''shelly'' ''80''
          handshake_em unreachable_world) = Returned (Some False)
   \<and> map (channel_destroyed \<circ> snd)
        (localmeters (fst (snd (PhysicalMeter_start (PhysicalMeter_init SYSTEM :: unit PhysicalMeter)
           ''shelly'' ''80'' handshake_em unreachable_world)))) = [False]"
  by (simp add: group_start_unreachable_result channel_destroyed_def SingleMeter_init_def)

theorem failed_channel_start_destroys_nothing_witness:
  "\<not> reachable unreachable_world
   \<and> fst (start_single_meters [0, 1] (PhysicalMeter_init SYSTEM :: unit PhysicalMeter) ''shelly'' ''80''
            handshake_em unreachable_world) = Returned (Some False)
   \<and> fst (start_three_phase_meter (PhysicalMeter_init SYSTEM :: unit PhysicalMeter) ''shelly'' ''80''
            handshake_3em unreachable_world) = Returned (Some False)
   \<and> fst (PhysicalMeter_start (PhysicalMeter_init SYSTEM :: unit PhysicalMeter) ''shelly'' ''80''
            handshake_em unreachable_world) = Returned (Some False)
   \<and> \<not> pm_destroyed (fst (snd (PhysicalMeter_start (PhysicalMeter_init SYSTEM :: unit PhysicalMeter)
            ''shelly'' ''80'' handshake_em unreachable_world)))
   \<and> map (channel_destroyed \<circ> snd) (localmeters (fst (snd (PhysicalMeter_start
            (PhysicalMeter_init SYSTEM :: unit PhysicalMeter) ''shelly'' ''80'' handshake_em
            unreachable_world)))) = [False]"
proof -
  let ?pm = "PhysicalMeter_init SYSTEM :: unit PhysicalMeter"
  have bt: "pm_bus_type ?pm = SYSTEM" by (simp add: PhysicalMeter_init_def)
  have u: "\<not> reachable unreachable_world" by (simp add: unreachable_world_def)
  note t = failed_channel_start_destroys_nothing[of ?pm 0 "''shelly''" "''80''" _ unreachable_world]
  from t[of handshake_em _ _ "[1]"] single_start_unreachable_result[of SYSTEM 0 "''shelly''" "''80''"] bt
  have a: "fst (start_single_meters [0, 1] ?pm ''shelly'' ''80'' handshake_em unreachable_world)
             = Returned (Some False)"
    by simp
  from t[of handshake_3em] three_start_unreachable_result[of SYSTEM "''shelly''" "''80''"] bt
  have b: "fst (start_three_phase_meter ?pm ''shelly'' ''80'' handshake_3em unreachable_world)
             = Returned (Some False)"
    by simp
  let ?r = "PhysicalMeter_start ?pm ''shelly'' ''80'' handshake_em unreachable_world"
  have l: "localmeters (fst (snd ?r)) \<noteq> []" by (simp add: group_start_unreachable_result)
  from t[of handshake_em _ _ _ _ SYSTEM "fst ?r" "fst (snd ?r)" "snd (snd ?r)"] u l
  have c: "\<not> pm_destroyed (fst (snd ?r))
         \<and> (\<forall>ch \<in> snd ` set (localmeters (fst (snd ?r))). \<not> channel_destroyed ch)
         \<and> fst ?r = Returned (Some False)"
    by simp
  have "localmeters (fst (snd ?r))
          = [(0, Single ((SingleMeter_init SYSTEM 0)\<lparr>sm_monitor := Some \<lparr>aliases = Map.empty\<rparr>\<rparr>))]"
    by (simp add: group_start_unreachable_result)
  with c have d: "map (channel_destroyed \<circ> snd) (localmeters (fst (snd ?r))) = [False]"
    by simp
  from u a b c d show ?thesis by simp
qed

text \<open>The three-line handshake without a profile: no channel is created.\<close>

theorem three_line_without_profile_counterexample:
  "PhysicalMeter_start (PhysicalMeter_init SYSTEM) ''shelly'' ''80'' handshake_3em_no_profile example_world
     = (Returned (Some False), PhysicalMeter_init SYSTEM, example_world)
   \<and> localmeters (PhysicalMeter_init SYSTEM :: unit PhysicalMeter) = []"
  by (simp add: PhysicalMeter_start_def PhysicalMeter_init_def handshake_field_def py_getitem_def
      py_subscript_def handshake_3em_no_profile_def)

text \<open>
  C8, as amended. For a handshake of the three-line device (model \<^verbatim>\<open>SPEM-003CEBEU\<close>, app
  \<^verbatim>\<open>Pro3EM\<close>): without a \<^verbatim>\<open>profile\<close> field \<^verbatim>\<open>PhysicalMeter.start\<close> returns \<^verbatim>\<open>False\<close> and
  creates no channel; with a profile other than \<^verbatim>\<open>monophase\<close> the group holds exactly one
  channel afterwards, the three-phase channel at index 0 as its own \<^verbatim>\<open>start\<close> left it,
  bound to the keys \<^verbatim>\<open>em:0\<close> and \<^verbatim>\<open>emdata:0\<close>.
\<close>

theorem three_line_classification:
  assumes "handshake_field data ''model'' = Inr (PStr ''SPEM-003CEBEU'')"
    and "handshake_field data ''app'' = Inr (PStr ''Pro3EM'')"
  shows "(handshake_field data ''profile'' = Inl KeyError \<longrightarrow>
            PhysicalMeter_start (PhysicalMeter_init bt) host port data w
              = (Returned (Some False), PhysicalMeter_init bt, w))
       \<and> (\<forall>profile. handshake_field data ''profile'' = Inr profile \<and> profile \<noteq> PStr ''monophase'' \<longrightarrow>
            (\<exists>r tm w'. ThreePhaseMeter_start (ThreePhaseMeter_init bt) host port data w = (r, tm, w')
               \<and> snd (PhysicalMeter_start (PhysicalMeter_init bt) host port data w)
                   = (\<lparr>pm_bus_type = bt, pm_destroyed = False,
                       localmeters = [(0, Three tm)],
                       localmeterskeys = [(0, [''em:0'', ''emdata:0''])]\<rparr>, w')))"
proof (intro conjI impI allI)
  assume "handshake_field data ''profile'' = Inl KeyError"
  with assms show "PhysicalMeter_start (PhysicalMeter_init bt) host port data w
              = (Returned (Some False), PhysicalMeter_init bt, w)"
    by (simp add: PhysicalMeter_start_def)
next
  fix profile
  assume p: "handshake_field data ''profile'' = Inr profile \<and> profile \<noteq> PStr ''monophase''"
  obtain r tm w' where st: "ThreePhaseMeter_start (ThreePhaseMeter_init bt) host port data w = (r, tm, w')"
    by (cases "ThreePhaseMeter_start (ThreePhaseMeter_init bt) host port data w") auto
  from assms p st have "snd (PhysicalMeter_start (PhysicalMeter_init bt) host port data w)
                   = (\<lparr>pm_bus_type = bt, pm_destroyed = False,
                       localmeters = [(0, Three tm)],
                       localmeterskeys = [(0, [''em:0'', ''emdata:0''])]\<rparr>, w')"
    by (cases r) (simp_all add: PhysicalMeter_start_def start_three_phase_meter_def
        PhysicalMeter_init_def Let_def)
  with st show "\<exists>r tm w'. ThreePhaseMeter_start (ThreePhaseMeter_init bt) host port data w = (r, tm, w')
               \<and> snd (PhysicalMeter_start (PhysicalMeter_init bt) host port data w)
                   = (\<lparr>pm_bus_type = bt, pm_destroyed = False,
                       localmeters = [(0, Three tm)],
                       localmeterskeys = [(0, [''em:0'', ''emdata:0''])]\<rparr>, w')"
    by blast
qed

theorem three_line_classification_witness:
  "snd (PhysicalMeter_start (PhysicalMeter_init SYSTEM) ''shelly'' ''80'' handshake_3em example_world)
     = (\<lparr>pm_bus_type = SYSTEM, pm_destroyed = False,
         localmeters = [(0, Three started_three_phase)],
         localmeterskeys = [(0, [''em:0'', ''emdata:0''])]\<rparr>, started_world)
   \<and> PhysicalMeter_start (PhysicalMeter_init SYSTEM :: unit PhysicalMeter) ''shelly'' ''80''
        handshake_3em_no_profile example_world
     = (Returned (Some False), PhysicalMeter_init SYSTEM, example_world)"
proof -
  have f: "handshake_field handshake_3em_no_profile ''model'' = Inr (PStr ''SPEM-003CEBEU'')"
    "handshake_field handshake_3em_no_profile ''app'' = Inr (PStr ''Pro3EM'')"
    "handshake_field handshake_3em_no_profile ''profile'' = Inl KeyError"
    by (simp_all add: handshake_field_def py_getitem_def py_subscript_def handshake_3em_no_profile_def)
  from three_line_classification[OF handshake_3em_fields(1,2), of SYSTEM "''shelly''" "''80''" example_world]
    handshake_3em_fields(3) three_phase_start_result
  have a: "snd (PhysicalMeter_start (PhysicalMeter_init SYSTEM) ''shelly'' ''80'' handshake_3em example_world)
     = (\<lparr>pm_bus_type = SYSTEM, pm_destroyed = False,
         localmeters = [(0, Three started_three_phase)],
         localmeterskeys = [(0, [''em:0'', ''emdata:0''])]\<rparr>, started_world)"
    by auto
  from three_line_classification[OF f(1,2), of SYSTEM "''shelly''" "''80''" example_world] f(3)
  have b: "PhysicalMeter_start (PhysicalMeter_init SYSTEM :: unit PhysicalMeter) ''shelly'' ''80''
        handshake_3em_no_profile example_world
     = (Returned (Some False), PhysicalMeter_init SYSTEM, example_world)"
    by simp
  from a b show ?thesis by simp
qed

section \<open>Live updates after a phase change\<close>




end
